theory Spec2Isabelle
  imports Main "HOL-Library.Word" "HOL-Library.Product_Lexorder"
begin

section \<open>The naive announcement table of the request tracker's tester\<close>

text \<open>
  The definitions below embed the class \<open>Tester\<close> of \<open>src/test/fuzz/txrequest.cpp\<close>:
  a dense table of announcements indexed by txid and peer, on which every public call of
  the request tracker is replayed. Times (\<open>std::chrono::microseconds\<close>) are integers
  (an overflow of the signed 64-bit count is undefined in the source and is not modelled),
  the two \<open>uint64_t\<close> fields are 64-bit words, and the table
  \<open>m_announcements[MAX_TXIDS][MAX_PEERS]\<close> is a function of the txid and the peer index;
  every loop of the source runs over the index list \<open>[0..<MAX_PEERS]\<close> or
  \<open>[0..<MAX_TXIDS]\<close>. The callers (\<open>test_one_input\<close>) reduce every peer and txid
  modulo the table's dimensions, so the theorems take indices below these bounds.

  Two things the tester uses are not part of the file and are parameters here: the priority
  function \<open>m_tracker.ComputePriority\<close> (argument \<open>prio\<close>) and the table \<open>TXIDS\<close> of
  256-bit identifiers (argument \<open>TXIDS\<close>). The calls that forward each operation to
  \<open>m_tracker\<close> are not modelled, nor are the assertions of \<open>GetRequestable\<close> that compare
  its answers with the vectors; the assertions of \<open>Check\<close> take the tracker's values as
  arguments.
\<close>

definition MAX_TXIDS :: nat where
  "MAX_TXIDS = 16"

definition MAX_PEERS :: nat where
  "MAX_PEERS = 16"

datatype State = NOTHING | CANDIDATE | REQUESTED | COMPLETED

record Announcement =
  m_time :: int
  m_sequence :: "64 word"
  m_state :: State
  m_preferred :: bool
  m_priority :: "64 word"

record Tester =
  m_current_sequence :: "64 word"
  m_events :: "int list"
  m_announcements :: "nat \<Rightarrow> nat \<Rightarrow> Announcement"
  m_now :: int

text \<open>The constructor: every cell is \<open>NOTHING\<close>, the sequence counter is 0, the queue of
  events is empty and the clock shows 244466666. The other fields of a cell are not
  initialised by the source; they are never read before \<open>ReceivedInv\<close> writes them.\<close>

definition Tester_init :: Tester where
  "Tester_init =
     \<lparr>m_current_sequence = 0,
      m_events = [],
      m_announcements = (\<lambda>txid peer.
         \<lparr>m_time = 0, m_sequence = 0, m_state = NOTHING, m_preferred = False, m_priority = 0\<rparr>),
      m_now = 244466666\<rparr>"

text \<open>Assignment to the row \<open>m_announcements[txid]\<close>.\<close>

definition upd_row :: "nat \<Rightarrow> ((nat \<Rightarrow> Announcement) \<Rightarrow> (nat \<Rightarrow> Announcement)) \<Rightarrow> Tester \<Rightarrow> Tester" where
  "upd_row txid f s = s\<lparr>m_announcements := (m_announcements s)(txid := f (m_announcements s txid))\<rparr>"

text \<open>Assignment \<open>row[peer].m_state = st\<close>.\<close>

definition set_state :: "nat \<Rightarrow> State \<Rightarrow> (nat \<Rightarrow> Announcement) \<Rightarrow> (nat \<Rightarrow> Announcement)" where
  "set_state peer st row = row(peer := (row peer)\<lparr>m_state := st\<rparr>)"

subsection \<open>Cleanup\<close>

text \<open>The first loop of \<open>Cleanup\<close>: \<open>None\<close> is the early return at an announcement that is
  neither \<open>NOTHING\<close> nor \<open>COMPLETED\<close>, \<open>Some all_nothing\<close> the flag after the last peer.\<close>

fun Cleanup_scan :: "(nat \<Rightarrow> Announcement) \<Rightarrow> nat list \<Rightarrow> bool \<Rightarrow> bool option" where
  "Cleanup_scan row [] all_nothing = Some all_nothing"
| "Cleanup_scan row (peer # peers) all_nothing =
     (if m_state (row peer) \<noteq> NOTHING then
        (if m_state (row peer) \<noteq> COMPLETED then None
         else Cleanup_scan row peers False)
      else Cleanup_scan row peers all_nothing)"

text \<open>The second loop of \<open>Cleanup\<close> (and the loop of \<open>ForgetTxId\<close>).\<close>

fun wipe :: "nat list \<Rightarrow> (nat \<Rightarrow> Announcement) \<Rightarrow> (nat \<Rightarrow> Announcement)" where
  "wipe [] row = row"
| "wipe (peer # peers) row = wipe peers (set_state peer NOTHING row)"

definition Cleanup_row :: "(nat \<Rightarrow> Announcement) \<Rightarrow> (nat \<Rightarrow> Announcement)" where
  "Cleanup_row row =
     (case Cleanup_scan row [0..<MAX_PEERS] True of
        None \<Rightarrow> row
      | Some all_nothing \<Rightarrow> if all_nothing then row else wipe [0..<MAX_PEERS] row)"

definition Cleanup :: "nat \<Rightarrow> Tester \<Rightarrow> Tester" where
  "Cleanup txid s = upd_row txid Cleanup_row s"

subsection \<open>GetSelected\<close>

text \<open>The loop of \<open>GetSelected\<close>; the result \<open>-1\<close> of the source is \<open>None\<close>.\<close>

fun GetSelected_loop ::
  "(nat \<Rightarrow> Announcement) \<Rightarrow> int \<Rightarrow> nat list \<Rightarrow> nat option \<Rightarrow> 64 word \<Rightarrow> nat option" where
  "GetSelected_loop row now [] ret ret_priority = ret"
| "GetSelected_loop row now (peer # peers) ret ret_priority =
     (if m_state (row peer) = REQUESTED then None
      else if m_state (row peer) = CANDIDATE \<and> m_time (row peer) \<le> now then
        (if ret = None \<or> m_priority (row peer) > ret_priority
         then GetSelected_loop row now peers (Some peer) (m_priority (row peer))
         else GetSelected_loop row now peers ret ret_priority)
      else GetSelected_loop row now peers ret ret_priority)"

definition GetSelected :: "nat \<Rightarrow> Tester \<Rightarrow> nat option" where
  "GetSelected txhash s =
     GetSelected_loop (m_announcements s txhash) (m_now s) [0..<MAX_PEERS] None 0"

subsection \<open>The clock\<close>

text \<open>\<open>m_events\<close> is a priority queue whose top is its least element: a sorted list, with
  \<open>insort\<close> for \<open>push\<close>. The loop \<open>while (!m_events.empty() && m_events.top() <= m_now)
  m_events.pop()\<close> is \<open>pop_passed\<close>.\<close>

fun pop_passed :: "int \<Rightarrow> int list \<Rightarrow> int list" where
  "pop_passed now [] = []"
| "pop_passed now (e # es) = (if e \<le> now then pop_passed now es else e # es)"


definition AdvanceTime :: "int \<Rightarrow> Tester \<Rightarrow> Tester" where
  "AdvanceTime offset s =
     (let now = m_now s + offset
      in s\<lparr>m_now := now, m_events := pop_passed now (m_events s)\<rparr>)"

definition AdvanceToEvent :: "Tester \<Rightarrow> Tester" where
  "AdvanceToEvent s =
     (case pop_passed (m_now s) (m_events s) of
        [] \<Rightarrow> s\<lparr>m_events := []\<rparr>
      | e # es \<Rightarrow> s\<lparr>m_now := e, m_events := es\<rparr>)"

subsection \<open>The events\<close>

fun DisconnectedPeer_loop :: "nat \<Rightarrow> nat list \<Rightarrow> Tester \<Rightarrow> Tester" where
  "DisconnectedPeer_loop peer [] s = s"
| "DisconnectedPeer_loop peer (txid # txids) s =
     (if m_state (m_announcements s txid peer) \<noteq> NOTHING
      then DisconnectedPeer_loop peer txids (Cleanup txid (upd_row txid (set_state peer NOTHING) s))
      else DisconnectedPeer_loop peer txids s)"

definition DisconnectedPeer :: "nat \<Rightarrow> Tester \<Rightarrow> Tester" where
  "DisconnectedPeer peer s = DisconnectedPeer_loop peer [0..<MAX_TXIDS] s"

definition ForgetTxId :: "nat \<Rightarrow> Tester \<Rightarrow> Tester" where
  "ForgetTxId txid s = Cleanup txid (upd_row txid (wipe [0..<MAX_PEERS]) s)"

text \<open>\<open>ReceivedInv\<close>: the argument \<open>is_wtxid\<close> is not used by the source.\<close>

definition ReceivedInv ::
  "(nat \<Rightarrow> nat \<Rightarrow> bool \<Rightarrow> 64 word) \<Rightarrow> nat \<Rightarrow> nat \<Rightarrow> bool \<Rightarrow> bool \<Rightarrow> int \<Rightarrow> Tester \<Rightarrow> Tester" where
  "ReceivedInv prio peer txid is_wtxid preferred reqtime s =
     (if m_state (m_announcements s txid peer) = NOTHING then
        (let ann = \<lparr>m_time = reqtime,
                    m_sequence = m_current_sequence s,
                    m_state = CANDIDATE,
                    m_preferred = preferred,
                    m_priority = prio txid peer preferred\<rparr>;
             s1 = s\<lparr>m_current_sequence := m_current_sequence s + 1,
                     m_announcements := (m_announcements s)(txid := (m_announcements s txid)(peer := ann))\<rparr>
         in if reqtime > m_now s then s1\<lparr>m_events := insort reqtime (m_events s1)\<rparr> else s1)
      else s)"

text \<open>The loop of \<open>RequestedTx\<close> that completes the announcements in flight.\<close>

fun complete_requested :: "nat list \<Rightarrow> (nat \<Rightarrow> Announcement) \<Rightarrow> (nat \<Rightarrow> Announcement)" where
  "complete_requested [] row = row"
| "complete_requested (peer2 # peers) row =
     (if m_state (row peer2) = REQUESTED
      then complete_requested peers (set_state peer2 COMPLETED row)
      else complete_requested peers row)"

definition RequestedTx_row :: "nat \<Rightarrow> int \<Rightarrow> (nat \<Rightarrow> Announcement) \<Rightarrow> (nat \<Rightarrow> Announcement)" where
  "RequestedTx_row peer exptime row =
     (let row1 = complete_requested [0..<MAX_PEERS] row;
          row2 = set_state peer REQUESTED row1
      in row2(peer := (row2 peer)\<lparr>m_time := exptime\<rparr>))"

definition RequestedTx :: "nat \<Rightarrow> nat \<Rightarrow> int \<Rightarrow> Tester \<Rightarrow> Tester" where
  "RequestedTx peer txid exptime s =
     (let s1 = (if m_state (m_announcements s txid peer) = CANDIDATE
                then upd_row txid (RequestedTx_row peer exptime) s else s)
      in if exptime > m_now s1 then s1\<lparr>m_events := insort exptime (m_events s1)\<rparr> else s1)"

definition ReceivedResponse :: "nat \<Rightarrow> nat \<Rightarrow> Tester \<Rightarrow> Tester" where
  "ReceivedResponse peer txid s =
     (if m_state (m_announcements s txid peer) \<noteq> NOTHING
      then Cleanup txid (upd_row txid (set_state peer COMPLETED) s)
      else s)"

subsection \<open>GetRequestable\<close>

text \<open>The inner loop of \<open>GetRequestable\<close>: the first announcement in flight whose time has
  passed is completed and the loop is left (\<open>break\<close>); the peer found is returned with the row.\<close>

fun expire_row :: "int \<Rightarrow> nat list \<Rightarrow> (nat \<Rightarrow> Announcement) \<Rightarrow> nat option \<times> (nat \<Rightarrow> Announcement)" where
  "expire_row now [] row = (None, row)"
| "expire_row now (peer2 # peers) row =
     (if m_state (row peer2) = REQUESTED \<and> m_time (row peer2) \<le> now
      then (Some peer2, set_state peer2 COMPLETED row)
      else expire_row now peers row)"

text \<open>The loop over the txids, with the vectors \<open>result\<close> and \<open>expected_expired\<close>.\<close>

fun GetRequestable_loop ::
  "(nat \<Rightarrow> 256 word) \<Rightarrow> nat \<Rightarrow> nat list \<Rightarrow> (64 word \<times> nat) list \<Rightarrow> (nat \<times> 256 word) list \<Rightarrow> Tester
     \<Rightarrow> (64 word \<times> nat) list \<times> (nat \<times> 256 word) list \<times> Tester" where
  "GetRequestable_loop TXIDS peer [] result expected_expired s = (result, expected_expired, s)"
| "GetRequestable_loop TXIDS peer (txid # txids) result expected_expired s =
     (let found = fst (expire_row (m_now s) [0..<MAX_PEERS] (m_announcements s txid));
          expected_expired1 = (case found of
                None \<Rightarrow> expected_expired
              | Some peer2 \<Rightarrow> expected_expired @ [(peer2, TXIDS txid)]);
          s1 = upd_row txid (\<lambda>row. snd (expire_row (m_now s) [0..<MAX_PEERS] row)) s;
          s2 = Cleanup txid s1;
          ann = m_announcements s2 txid peer;
          result1 = (if m_state ann = CANDIDATE \<and> GetSelected txid s2 = Some peer
                     then result @ [(m_sequence ann, txid)] else result)
      in GetRequestable_loop TXIDS peer txids result1 expected_expired1 s2)"

text \<open>\<open>GetRequestable\<close> returns the two sorted vectors (pairs are ordered lexicographically,
  as \<open>std::tuple\<close> and \<open>std::pair\<close> are; identifiers are compared as 256-bit numbers, and
  no property below depends on their order) and the state. The items the tracker has to return are
  the second components of \<open>result\<close>, in this order: \<open>selected\<close>.\<close>

definition GetRequestable ::
  "(nat \<Rightarrow> 256 word) \<Rightarrow> nat \<Rightarrow> Tester \<Rightarrow> (64 word \<times> nat) list \<times> (nat \<times> 256 word) list \<times> Tester" where
  "GetRequestable TXIDS peer s =
     (case GetRequestable_loop TXIDS peer [0..<MAX_TXIDS] [] [] s of
        (result, expected_expired, s') \<Rightarrow> (sort result, sort expected_expired, s'))"

definition selected :: "(64 word \<times> nat) list \<times> (nat \<times> 256 word) list \<times> Tester \<Rightarrow> nat list" where
  "selected r = map snd (fst r)"

definition expired :: "(64 word \<times> nat) list \<times> (nat \<times> 256 word) list \<times> Tester \<Rightarrow> (nat \<times> 256 word) list" where
  "expired r = fst (snd r)"

definition state_after :: "(64 word \<times> nat) list \<times> (nat \<times> 256 word) list \<times> Tester \<Rightarrow> Tester" where
  "state_after r = snd (snd r)"

subsection \<open>Check\<close>

text \<open>The counters that the inner loop of \<open>Check\<close> computes for a peer. Adding a C++
  \<open>bool\<close> to a \<open>size_t\<close> adds 1 or 0.\<close>

fun Check_peer :: "(nat \<Rightarrow> nat \<Rightarrow> Announcement) \<Rightarrow> nat \<Rightarrow> nat list \<Rightarrow> nat \<times> nat \<times> nat \<Rightarrow> nat \<times> nat \<times> nat" where
  "Check_peer anns peer [] (tracked, inflight, candidates) = (tracked, inflight, candidates)"
| "Check_peer anns peer (txid # txids) (tracked, inflight, candidates) =
     Check_peer anns peer txids
       (tracked + (if m_state (anns txid peer) \<noteq> NOTHING then 1 else 0),
        inflight + (if m_state (anns txid peer) = REQUESTED then 1 else 0),
        candidates + (if m_state (anns txid peer) = CANDIDATE then 1 else 0))"

definition tracked :: "Tester \<Rightarrow> nat \<Rightarrow> nat" where
  "tracked s peer = fst (Check_peer (m_announcements s) peer [0..<MAX_TXIDS] (0, 0, 0))"

definition inflight :: "Tester \<Rightarrow> nat \<Rightarrow> nat" where
  "inflight s peer = fst (snd (Check_peer (m_announcements s) peer [0..<MAX_TXIDS] (0, 0, 0)))"

definition candidates :: "Tester \<Rightarrow> nat \<Rightarrow> nat" where
  "candidates s peer = snd (snd (Check_peer (m_announcements s) peer [0..<MAX_TXIDS] (0, 0, 0)))"

text \<open>What goes wrong in the source, as a value: an index outside an array (undefined in C++)
  and an assertion that does not hold.\<close>

datatype failure = OutOfRange | AssertionFailed

text \<open>Modelled from the spec: the accessor \<open>Count\<close> of \<open>TxRequestTracker\<close>, whose code is
  not among the sources. The spec names it \<open>count(peer)\<close> and requires that all counters of
  the tracker match those of the tester on every step; it is the number of announcements of
  the peer in the table.\<close>

definition Count :: "Tester \<Rightarrow> nat \<Rightarrow> nat" where
  "Count s peer = card {txid. txid < MAX_TXIDS \<and> m_state (m_announcements s txid peer) \<noteq> NOTHING}"

text \<open>Modelled from the spec: the accessor \<open>CountInFlight\<close> of \<open>TxRequestTracker\<close>, whose code
  is not among the sources: the number of announcements of the peer that are requested.\<close>

definition CountInFlight :: "Tester \<Rightarrow> nat \<Rightarrow> nat" where
  "CountInFlight s peer = card {txid. txid < MAX_TXIDS \<and> m_state (m_announcements s txid peer) = REQUESTED}"

text \<open>Modelled from the spec: the accessor \<open>CountCandidates\<close> of \<open>TxRequestTracker\<close>, whose
  code is not among the sources: the number of announcements of the peer that are candidates.\<close>

definition CountCandidates :: "Tester \<Rightarrow> nat \<Rightarrow> nat" where
  "CountCandidates s peer = card {txid. txid < MAX_TXIDS \<and> m_state (m_announcements s txid peer) = CANDIDATE}"

text \<open>Modelled from the spec: the accessor \<open>Size\<close> of \<open>TxRequestTracker\<close>, whose code is not
  among the sources: the number of announcements, one for each (peer, item) pair that has one.\<close>

definition Size :: "Tester \<Rightarrow> nat" where
  "Size s = card {(peer, txid). peer < MAX_PEERS \<and> txid < MAX_TXIDS
                    \<and> m_state (m_announcements s txid peer) \<noteq> NOTHING}"

text \<open>\<open>Check\<close> with its assertions. The values that \<open>m_tracker\<close> returns for \<open>Count\<close>,
  \<open>CountInFlight\<close>, \<open>CountCandidates\<close> and \<open>Size\<close> are arguments; the variable \<open>total\<close>
  of the source is \<open>total_sum\<close>. The last statement of the source, \<open>m_tracker.SanityCheck()\<close>,
  is code of the tracker and is not modelled.\<close>

fun Check_asserts ::
  "(nat \<Rightarrow> nat) \<Rightarrow> (nat \<Rightarrow> nat) \<Rightarrow> (nat \<Rightarrow> nat) \<Rightarrow> Tester \<Rightarrow> nat list \<Rightarrow> nat \<Rightarrow> failure + nat" where
  "Check_asserts tr_Count tr_CountInFlight tr_CountCandidates s [] total_sum = Inr total_sum"
| "Check_asserts tr_Count tr_CountInFlight tr_CountCandidates s (peer # peers) total_sum =
     (if tr_Count peer \<noteq> tracked s peer then Inl AssertionFailed
      else if tr_CountInFlight peer \<noteq> inflight s peer then Inl AssertionFailed
      else if tr_CountCandidates peer \<noteq> candidates s peer then Inl AssertionFailed
      else Check_asserts tr_Count tr_CountInFlight tr_CountCandidates s peers (total_sum + tracked s peer))"

definition Check ::
  "(nat \<Rightarrow> nat) \<Rightarrow> (nat \<Rightarrow> nat) \<Rightarrow> (nat \<Rightarrow> nat) \<Rightarrow> nat \<Rightarrow> Tester \<Rightarrow> failure + unit" where
  "Check tr_Count tr_CountInFlight tr_CountCandidates tr_Size s =
     (case Check_asserts tr_Count tr_CountInFlight tr_CountCandidates s [0..<MAX_PEERS] 0 of
        Inl e \<Rightarrow> Inl e
      | Inr total_sum \<Rightarrow> if tr_Size \<noteq> total_sum then Inl AssertionFailed else Inr ())"

subsection \<open>The fuzz driver\<close>













subsection \<open>Reachable states\<close>

text \<open>The states that \<open>test_one_input\<close> can produce: every command calls one public member
  function, with the peer and the txid reduced modulo the dimensions of the table.\<close>

inductive reachable :: "(nat \<Rightarrow> nat \<Rightarrow> bool \<Rightarrow> 64 word) \<Rightarrow> (nat \<Rightarrow> 256 word) \<Rightarrow> Tester \<Rightarrow> bool"
  for prio :: "nat \<Rightarrow> nat \<Rightarrow> bool \<Rightarrow> 64 word" and TXIDS :: "nat \<Rightarrow> 256 word" where
  r_init: "reachable prio TXIDS Tester_init"
| r_AdvanceToEvent: "reachable prio TXIDS s \<Longrightarrow> reachable prio TXIDS (AdvanceToEvent s)"
| r_AdvanceTime: "reachable prio TXIDS s \<Longrightarrow> reachable prio TXIDS (AdvanceTime offset s)"
| r_GetRequestable: "reachable prio TXIDS s \<Longrightarrow> peer < MAX_PEERS
     \<Longrightarrow> reachable prio TXIDS (state_after (GetRequestable TXIDS peer s))"
| r_DisconnectedPeer: "reachable prio TXIDS s \<Longrightarrow> peer < MAX_PEERS
     \<Longrightarrow> reachable prio TXIDS (DisconnectedPeer peer s)"
| r_ForgetTxId: "reachable prio TXIDS s \<Longrightarrow> txid < MAX_TXIDS
     \<Longrightarrow> reachable prio TXIDS (ForgetTxId txid s)"
| r_ReceivedInv: "reachable prio TXIDS s \<Longrightarrow> peer < MAX_PEERS \<Longrightarrow> txid < MAX_TXIDS
     \<Longrightarrow> reachable prio TXIDS (ReceivedInv prio peer txid is_wtxid preferred reqtime s)"
| r_RequestedTx: "reachable prio TXIDS s \<Longrightarrow> peer < MAX_PEERS \<Longrightarrow> txid < MAX_TXIDS
     \<Longrightarrow> reachable prio TXIDS (RequestedTx peer txid exptime s)"
| r_ReceivedResponse: "reachable prio TXIDS s \<Longrightarrow> peer < MAX_PEERS \<Longrightarrow> txid < MAX_TXIDS
     \<Longrightarrow> reachable prio TXIDS (ReceivedResponse peer txid s)"

subsection \<open>Predicates on a row of the table\<close>

text \<open>\<open>resolved\<close>: every announcement of the row is \<open>NOTHING\<close> or \<open>COMPLETED\<close>, the
  condition under which \<open>Cleanup\<close> wipes a row that is not empty. \<open>ready\<close>: the test of
  \<open>GetSelected\<close> for a viable candidate. \<open>sel_cond\<close>: the test of \<open>GetRequestable\<close> for
  returning the txid of a row.\<close>

definition resolved :: "(nat \<Rightarrow> Announcement) \<Rightarrow> bool" where
  "resolved row = (\<forall>p < MAX_PEERS. m_state (row p) = NOTHING \<or> m_state (row p) = COMPLETED)"

definition ready :: "int \<Rightarrow> Announcement \<Rightarrow> bool" where
  "ready now a = (m_state a = CANDIDATE \<and> m_time a \<le> now)"

definition sel_cond :: "int \<Rightarrow> nat \<Rightarrow> (nat \<Rightarrow> Announcement) \<Rightarrow> bool" where
  "sel_cond now peer row =
     (m_state (row peer) = CANDIDATE \<and> GetSelected_loop row now [0..<MAX_PEERS] None 0 = Some peer)"

text \<open>\<open>single_inflight_row\<close>: at most one announcement of the row is \<open>REQUESTED\<close>.
  \<open>forgotten_if_resolved\<close>: a resolved row is empty.\<close>

definition single_inflight_row :: "(nat \<Rightarrow> Announcement) \<Rightarrow> bool" where
  "single_inflight_row row =
     (\<forall>p < MAX_PEERS. \<forall>q < MAX_PEERS.
        m_state (row p) = REQUESTED \<longrightarrow> m_state (row q) = REQUESTED \<longrightarrow> p = q)"

definition forgotten_if_resolved :: "(nat \<Rightarrow> Announcement) \<Rightarrow> bool" where
  "forgotten_if_resolved row = (resolved row \<longrightarrow> (\<forall>p < MAX_PEERS. m_state (row p) = NOTHING))"

text \<open>\<open>expire_cleanup\<close>: what one round of the loop of \<open>GetRequestable\<close> does to the row
  of its txid. \<open>complete_expired\<close>: the row in which every request whose time has passed
  is completed. \<open>found_expired\<close>: the pair that one round appends to \<open>expected_expired\<close>.\<close>

definition expire_cleanup :: "int \<Rightarrow> (nat \<Rightarrow> Announcement) \<Rightarrow> (nat \<Rightarrow> Announcement)" where
  "expire_cleanup now row = Cleanup_row (snd (expire_row now [0..<MAX_PEERS] row))"

definition complete_expired :: "int \<Rightarrow> (nat \<Rightarrow> Announcement) \<Rightarrow> (nat \<Rightarrow> Announcement)" where
  "complete_expired now row =
     (\<lambda>p. if p < MAX_PEERS \<and> m_state (row p) = REQUESTED \<and> m_time (row p) \<le> now
          then (row p)\<lparr>m_state := COMPLETED\<rparr> else row p)"

definition found_expired :: "(nat \<Rightarrow> 256 word) \<Rightarrow> int \<Rightarrow> (nat \<Rightarrow> Announcement) \<Rightarrow> nat \<Rightarrow> (nat \<times> 256 word) list" where
  "found_expired TXIDS now row t =
     (case fst (expire_row now [0..<MAX_PEERS] row) of None \<Rightarrow> [] | Some p \<Rightarrow> [(p, TXIDS t)])"

subsection \<open>Sample parameters and states\<close>

text \<open>A priority function and a table of identifiers for the concrete examples: preferred
  announcements have the top bit set, the rest is the peer's number; the identifier of txid
  \<open>n\<close> is \<open>n\<close>.\<close>

definition ex_prio :: "nat \<Rightarrow> nat \<Rightarrow> bool \<Rightarrow> 64 word" where
  "ex_prio txid peer preferred = (if preferred then 2 ^ 63 else 0) + of_nat peer"

definition ex_TXIDS :: "nat \<Rightarrow> 256 word" where
  "ex_TXIDS txid = of_nat txid"


text \<open>Peers 0 and 1 (then also peer 2) announce txid 0, preferred and without delay.\<close>

definition ex_two_candidates :: Tester where
  "ex_two_candidates =
     ReceivedInv ex_prio 1 0 False True 0 (ReceivedInv ex_prio 0 0 False True 0 Tester_init)"

definition ex_three_candidates :: Tester where
  "ex_three_candidates = ReceivedInv ex_prio 2 0 False True 0 ex_two_candidates"



text \<open>Peer 1 is requested, then peer 0.\<close>

definition ex_requested_twice :: Tester where
  "ex_requested_twice = RequestedTx 0 0 300000000 (RequestedTx 1 0 300000000 ex_two_candidates)"

text \<open>Peer 1 answers; then peer 0 answers as well.\<close>

definition ex_one_completed :: Tester where
  "ex_one_completed = ReceivedResponse 1 0 ex_two_candidates"

definition ex_all_completed :: Tester where
  "ex_all_completed = ReceivedResponse 0 0 ex_one_completed"

text \<open>Peer 1 is requested with an expiry 500 microseconds ahead, and 600 microseconds pass.\<close>

definition ex_request_expired :: Tester where
  "ex_request_expired = AdvanceTime 600 (RequestedTx 1 0 244467166 ex_two_candidates)"

text \<open>Peer 0 announces txid 0 with a time equal to the clock; after one call of
  \<open>GetRequestable\<close> the clock is set back by one microsecond.\<close>

definition ex_ready_at_now :: Tester where
  "ex_ready_at_now = ReceivedInv ex_prio 0 0 False True 244466666 Tester_init"

definition ex_back_in_time :: Tester where
  "ex_back_in_time = AdvanceTime (- 1) (state_after (GetRequestable ex_TXIDS 0 ex_ready_at_now))"

section \<open>Characterisation of each loop\<close>

subsection \<open>Rows\<close>

lemma set_state_apply [simp]:
  "set_state peer st row p = (if p = peer then (row p)\<lparr>m_state := st\<rparr> else row p)"
  by (simp add: set_state_def)

lemma upd_row_simps [simp]:
  "m_announcements (upd_row txid f s) t = (if t = txid then f (m_announcements s t) else m_announcements s t)"
  "m_now (upd_row txid f s) = m_now s"
  "m_events (upd_row txid f s) = m_events s"
  "m_current_sequence (upd_row txid f s) = m_current_sequence s"
  by (simp_all add: upd_row_def)

lemma wipe_apply:
  "wipe peers row p = (if p \<in> set peers then (row p)\<lparr>m_state := NOTHING\<rparr> else row p)"
  by (induction peers arbitrary: row) auto

lemma Cleanup_scan_eq:
  "Cleanup_scan row peers b =
     (if \<exists>p \<in> set peers. m_state (row p) \<noteq> NOTHING \<and> m_state (row p) \<noteq> COMPLETED then None
      else Some (b \<and> (\<forall>p \<in> set peers. m_state (row p) = NOTHING)))"
  by (induction peers arbitrary: b) auto

lemma Cleanup_row_apply:
  "Cleanup_row row p =
     (if resolved row \<and> p < MAX_PEERS then (row p)\<lparr>m_state := NOTHING\<rparr> else row p)"
  by (auto simp: Cleanup_row_def Cleanup_scan_eq wipe_apply resolved_def)

lemma complete_requested_apply:
  "complete_requested peers row p =
     (if p \<in> set peers \<and> m_state (row p) = REQUESTED then (row p)\<lparr>m_state := COMPLETED\<rparr> else row p)"
  by (induction peers arbitrary: row) auto

lemma RequestedTx_row_apply:
  "RequestedTx_row peer exptime row p =
     (if p = peer then (row p)\<lparr>m_state := REQUESTED, m_time := exptime\<rparr>
      else if p < MAX_PEERS \<and> m_state (row p) = REQUESTED then (row p)\<lparr>m_state := COMPLETED\<rparr>
      else row p)"
  by (auto simp: RequestedTx_row_def Let_def complete_requested_apply)

lemma expire_row_None:
  "fst (expire_row now peers row) = None \<longleftrightarrow>
     (\<forall>p \<in> set peers. \<not> (m_state (row p) = REQUESTED \<and> m_time (row p) \<le> now))"
  by (induction peers) auto

lemma expire_row_Some:
  "fst (expire_row now peers row) = Some p \<Longrightarrow>
     p \<in> set peers \<and> m_state (row p) = REQUESTED \<and> m_time (row p) \<le> now"
  by (induction peers) (auto split: if_splits)

lemma expire_row_snd:
  "snd (expire_row now peers row) =
     (case fst (expire_row now peers row) of None \<Rightarrow> row | Some p \<Rightarrow> set_state p COMPLETED row)"
  by (induction peers) auto

subsection \<open>The selected peer\<close>

lemma GetSelected_loop_requested:
  "\<exists>p \<in> set peers. m_state (row p) = REQUESTED \<Longrightarrow> GetSelected_loop row now peers ret rp = None"
  by (induction peers arbitrary: ret rp) auto

lemma GetSelected_loop_sound:
  "GetSelected_loop row now peers ret rp = Some q \<Longrightarrow>
     (\<forall>p \<in> set peers. m_state (row p) \<noteq> REQUESTED) \<and>
     (\<exists>pr. (ret = Some q \<and> pr = rp \<or> q \<in> set peers \<and> ready now (row q) \<and> pr = m_priority (row q))
        \<and> (ret \<noteq> None \<longrightarrow> rp \<le> pr)
        \<and> (\<forall>p \<in> set peers. ready now (row p) \<longrightarrow> m_priority (row p) \<le> pr))"
proof (induction peers arbitrary: ret rp)
  case Nil
  then show ?case by simp
next
  case (Cons peer peers)
  show ?case
  proof (cases "m_state (row peer) = REQUESTED")
    case True
    with Cons.prems show ?thesis by simp
  next
    case notreq: False
    show ?thesis
    proof (cases "ready now (row peer)")
      case False
      with notreq Cons.prems have "GetSelected_loop row now peers ret rp = Some q"
        by (simp add: ready_def split: if_splits)
      from Cons.IH[OF this] notreq False show ?thesis by auto
    next
      case rdy: True
      show ?thesis
      proof (cases "ret = None \<or> m_priority (row peer) > rp")
        case True
        with notreq rdy Cons.prems
        have "GetSelected_loop row now peers (Some peer) (m_priority (row peer)) = Some q"
          by (simp add: ready_def split: if_splits)
        from Cons.IH[OF this] obtain pr where
          a: "\<forall>p \<in> set peers. m_state (row p) \<noteq> REQUESTED"
          and b: "Some peer = Some q \<and> pr = m_priority (row peer) \<or> q \<in> set peers \<and> ready now (row q) \<and> pr = m_priority (row q)"
          and c: "m_priority (row peer) \<le> pr"
          and d: "\<forall>p \<in> set peers. ready now (row p) \<longrightarrow> m_priority (row p) \<le> pr"
          by auto
        from b rdy have b': "q \<in> set (peer # peers) \<and> ready now (row q) \<and> pr = m_priority (row q)"
          by auto
        from True c have e: "ret \<noteq> None \<longrightarrow> rp \<le> pr" by auto
        from a notreq b' e c d show ?thesis by auto
      next
        case False
        with notreq rdy Cons.prems have "GetSelected_loop row now peers ret rp = Some q"
          by (simp add: ready_def split: if_splits)
        from Cons.IH[OF this] obtain pr where
          a: "\<forall>p \<in> set peers. m_state (row p) \<noteq> REQUESTED"
          and b: "ret = Some q \<and> pr = rp \<or> q \<in> set peers \<and> ready now (row q) \<and> pr = m_priority (row q)"
          and c: "ret \<noteq> None \<longrightarrow> rp \<le> pr"
          and d: "\<forall>p \<in> set peers. ready now (row p) \<longrightarrow> m_priority (row p) \<le> pr"
          by auto
        from False c have "m_priority (row peer) \<le> pr" by auto
        with a notreq b c d show ?thesis by auto
      qed
    qed
  qed
qed

lemma GetSelected_loop_stay:
  "\<forall>p \<in> set peers. m_state (row p) \<noteq> REQUESTED \<Longrightarrow>
   \<forall>p \<in> set peers. ready now (row p) \<longrightarrow> m_priority (row p) \<le> rp \<Longrightarrow>
   GetSelected_loop row now peers (Some r) rp = Some r"
  by (induction peers) (auto simp: ready_def)

lemma GetSelected_loop_pick:
  "\<forall>p \<in> set peers. m_state (row p) \<noteq> REQUESTED \<Longrightarrow> distinct peers \<Longrightarrow>
   peer \<in> set peers \<Longrightarrow> ready now (row peer) \<Longrightarrow>
   \<forall>p \<in> set peers. ready now (row p) \<and> p \<noteq> peer \<longrightarrow> m_priority (row p) < m_priority (row peer) \<Longrightarrow>
   ret \<noteq> None \<longrightarrow> rp < m_priority (row peer) \<Longrightarrow>
   GetSelected_loop row now peers ret rp = Some peer"
proof (induction peers arbitrary: ret rp)
  case Nil
  then show ?case by simp
next
  case (Cons a peers)
  show ?case
  proof (cases "a = peer")
    case True
    have "\<forall>p \<in> set peers. ready now (row p) \<longrightarrow> m_priority (row p) \<le> m_priority (row peer)"
      using Cons.prems True by (auto simp: less_imp_le)
    moreover have "\<forall>p \<in> set peers. m_state (row p) \<noteq> REQUESTED" using Cons.prems by simp
    ultimately have "GetSelected_loop row now peers (Some peer) (m_priority (row peer)) = Some peer"
      by (rule GetSelected_loop_stay[rotated])
    with True Cons.prems show ?thesis by (auto simp: ready_def)
  next
    case False
    with Cons.prems have in_rest: "peer \<in> set peers" by simp
    have ih: "\<And>ret' rp'. ret' \<noteq> None \<longrightarrow> rp' < m_priority (row peer) \<Longrightarrow>
                GetSelected_loop row now peers ret' rp' = Some peer"
      using Cons.IH[OF _ _ in_rest Cons.prems(4)] Cons.prems by simp
    show ?thesis
    proof (cases "ready now (row a)")
      case True
      with False Cons.prems have lt: "m_priority (row a) < m_priority (row peer)" by simp
      show ?thesis using True Cons.prems(1) Cons.prems(6) lt ih
        by (simp add: ready_def)
    next
      case False
      then show ?thesis using Cons.prems(1) Cons.prems(6) ih
        by (auto simp: ready_def)
    qed
  qed
qed



subsection \<open>What each operation does to a row\<close>

lemma Cleanup_simps [simp]:
  "m_announcements (Cleanup txid s) t = (if t = txid then Cleanup_row (m_announcements s t) else m_announcements s t)"
  "m_now (Cleanup txid s) = m_now s"
  "m_events (Cleanup txid s) = m_events s"
  "m_current_sequence (Cleanup txid s) = m_current_sequence s"
  by (simp_all add: Cleanup_def)

lemma DisconnectedPeer_loop_rows:
  "distinct txids \<Longrightarrow>
   m_announcements (DisconnectedPeer_loop peer txids s) t =
     (if t \<in> set txids \<and> m_state (m_announcements s t peer) \<noteq> NOTHING
      then Cleanup_row (set_state peer NOTHING (m_announcements s t))
      else m_announcements s t)"
  by (induction txids arbitrary: s) auto

lemma DisconnectedPeer_rows:
  "m_announcements (DisconnectedPeer peer s) t =
     (if t < MAX_TXIDS \<and> m_state (m_announcements s t peer) \<noteq> NOTHING
      then Cleanup_row (set_state peer NOTHING (m_announcements s t))
      else m_announcements s t)"
  by (simp add: DisconnectedPeer_def DisconnectedPeer_loop_rows)

lemma ForgetTxId_rows:
  "m_announcements (ForgetTxId txid s) t =
     (if t = txid then Cleanup_row (wipe [0..<MAX_PEERS] (m_announcements s t)) else m_announcements s t)"
  by (simp add: ForgetTxId_def)

lemma ReceivedInv_rows:
  "m_announcements (ReceivedInv prio peer txid w preferred reqtime s) t =
     (if t = txid \<and> m_state (m_announcements s t peer) = NOTHING
      then (m_announcements s t)(peer := \<lparr>m_time = reqtime, m_sequence = m_current_sequence s,
              m_state = CANDIDATE, m_preferred = preferred, m_priority = prio txid peer preferred\<rparr>)
      else m_announcements s t)"
  by (auto simp: ReceivedInv_def Let_def)

lemma RequestedTx_rows:
  "m_announcements (RequestedTx peer txid exptime s) t =
     (if t = txid \<and> m_state (m_announcements s t peer) = CANDIDATE
      then RequestedTx_row peer exptime (m_announcements s t)
      else m_announcements s t)"
  by (auto simp: RequestedTx_def Let_def)

lemma ReceivedResponse_rows:
  "m_announcements (ReceivedResponse peer txid s) t =
     (if t = txid \<and> m_state (m_announcements s t peer) \<noteq> NOTHING
      then Cleanup_row (set_state peer COMPLETED (m_announcements s t))
      else m_announcements s t)"
  by (auto simp: ReceivedResponse_def)

lemma AdvanceTime_rows [simp]: "m_announcements (AdvanceTime offset s) = m_announcements s"
  by (simp add: AdvanceTime_def Let_def)

lemma AdvanceToEvent_rows [simp]: "m_announcements (AdvanceToEvent s) = m_announcements s"
  by (simp add: AdvanceToEvent_def split: list.splits)

lemma GetRequestable_loop_state:
  "distinct txids \<Longrightarrow>
   m_announcements (snd (snd (GetRequestable_loop TXIDS peer txids res ex s))) t =
     (if t \<in> set txids then expire_cleanup (m_now s) (m_announcements s t) else m_announcements s t)
   \<and> m_now (snd (snd (GetRequestable_loop TXIDS peer txids res ex s))) = m_now s
   \<and> m_events (snd (snd (GetRequestable_loop TXIDS peer txids res ex s))) = m_events s
   \<and> m_current_sequence (snd (snd (GetRequestable_loop TXIDS peer txids res ex s))) = m_current_sequence s"
  by (induction txids arbitrary: s res ex) (auto simp: Let_def expire_cleanup_def)

lemma GetRequestable_rows:
  "m_announcements (state_after (GetRequestable TXIDS peer s)) t =
     (if t < MAX_TXIDS then expire_cleanup (m_now s) (m_announcements s t) else m_announcements s t)"
  using GetRequestable_loop_state[of "[0..<MAX_TXIDS]" TXIDS peer "[]" "[]" s t]
  by (cases "GetRequestable_loop TXIDS peer [0..<MAX_TXIDS] [] [] s")
     (simp add: GetRequestable_def state_after_def)

lemma GetRequestable_now [simp]:
  "m_now (state_after (GetRequestable TXIDS peer s)) = m_now s"
  using GetRequestable_loop_state[of "[0..<MAX_TXIDS]" TXIDS peer "[]" "[]" s 0]
  by (cases "GetRequestable_loop TXIDS peer [0..<MAX_TXIDS] [] [] s")
     (simp add: GetRequestable_def state_after_def)

subsection \<open>Invariants\<close>

lemma single_inflight_row_no_new:
  "single_inflight_row row \<Longrightarrow>
   (\<And>p. m_state (row' p) = REQUESTED \<Longrightarrow> m_state (row p) = REQUESTED) \<Longrightarrow>
   single_inflight_row row'"
  unfolding single_inflight_row_def by blast

lemma Cleanup_row_no_new:
  "m_state (Cleanup_row row p) = REQUESTED \<Longrightarrow> m_state (row p) = REQUESTED"
  by (simp add: Cleanup_row_apply split: if_splits)

lemma expire_row_no_new:
  "m_state (snd (expire_row now peers row) p) = REQUESTED \<Longrightarrow> m_state (row p) = REQUESTED"
  by (simp add: expire_row_snd split: option.splits if_splits)

lemma expire_cleanup_no_new:
  "m_state (expire_cleanup now row p) = REQUESTED \<Longrightarrow> m_state (row p) = REQUESTED"
  unfolding expire_cleanup_def by (blast dest: Cleanup_row_no_new expire_row_no_new)

lemma RequestedTx_row_single: "single_inflight_row (RequestedTx_row peer exptime row)"
  unfolding single_inflight_row_def
  by (auto simp: RequestedTx_row_apply split: if_splits)

lemma reachable_single_inflight:
  "reachable prio TXIDS s \<Longrightarrow> single_inflight_row (m_announcements s t)"
proof (induction arbitrary: t rule: reachable.induct)
  case r_init
  show ?case by (simp add: Tester_init_def single_inflight_row_def)
next
  case (r_AdvanceToEvent s)
  then show ?case by simp
next
  case (r_AdvanceTime s offset)
  then show ?case by simp
next
  case (r_GetRequestable s peer)
  show ?case
    by (rule single_inflight_row_no_new[OF r_GetRequestable.IH[of t]])
       (auto simp: GetRequestable_rows dest: expire_cleanup_no_new split: if_splits)
next
  case (r_DisconnectedPeer s peer)
  show ?case
    by (rule single_inflight_row_no_new[OF r_DisconnectedPeer.IH[of t]])
       (auto simp: DisconnectedPeer_rows dest!: Cleanup_row_no_new split: if_splits)
next
  case (r_ForgetTxId s txid)
  show ?case
    by (rule single_inflight_row_no_new[OF r_ForgetTxId.IH[of t]])
       (auto simp: ForgetTxId_rows wipe_apply dest!: Cleanup_row_no_new split: if_splits)
next
  case (r_ReceivedInv s peer txid is_wtxid preferred reqtime)
  show ?case
    by (rule single_inflight_row_no_new[OF r_ReceivedInv.IH[of t]])
       (auto simp: ReceivedInv_rows split: if_splits)
next
  case (r_RequestedTx s peer txid exptime)
  then show ?case
    by (simp add: RequestedTx_rows RequestedTx_row_single)
next
  case (r_ReceivedResponse s peer txid)
  show ?case
    by (rule single_inflight_row_no_new[OF r_ReceivedResponse.IH[of t]])
       (auto simp: ReceivedResponse_rows dest!: Cleanup_row_no_new split: if_splits)
qed

lemma Cleanup_row_forgotten: "forgotten_if_resolved (Cleanup_row row)"
  by (auto simp: forgotten_if_resolved_def resolved_def Cleanup_row_apply)

lemma not_resolved_forgotten:
  "p < MAX_PEERS \<Longrightarrow> m_state (row p) = CANDIDATE \<or> m_state (row p) = REQUESTED \<Longrightarrow>
   forgotten_if_resolved row"
  by (auto simp: forgotten_if_resolved_def resolved_def)

lemma reachable_forgotten_if_resolved:
  "reachable prio TXIDS s \<Longrightarrow> forgotten_if_resolved (m_announcements s t)"
proof (induction arbitrary: t rule: reachable.induct)
  case r_init
  show ?case by (simp add: Tester_init_def forgotten_if_resolved_def)
next
  case (r_AdvanceToEvent s)
  then show ?case by simp
next
  case (r_AdvanceTime s offset)
  then show ?case by simp
next
  case (r_GetRequestable s peer)
  then show ?case
    by (simp add: GetRequestable_rows expire_cleanup_def Cleanup_row_forgotten)
next
  case (r_DisconnectedPeer s peer)
  then show ?case
    by (simp add: DisconnectedPeer_rows Cleanup_row_forgotten)
next
  case (r_ForgetTxId s txid)
  then show ?case
    by (simp add: ForgetTxId_rows Cleanup_row_forgotten)
next
  case (r_ReceivedInv s peer txid is_wtxid preferred reqtime)
  then show ?case
    by (auto simp: ReceivedInv_rows intro!: not_resolved_forgotten[of peer])
next
  case (r_RequestedTx s peer txid exptime)
  then show ?case
    by (auto simp: RequestedTx_rows RequestedTx_row_apply intro!: not_resolved_forgotten[of peer])
next
  case (r_ReceivedResponse s peer txid)
  then show ?case
    by (simp add: ReceivedResponse_rows Cleanup_row_forgotten)
qed

subsection \<open>The sample states\<close>

lemma ex_two_candidates_cells:
  "m_announcements ex_two_candidates t p =
     (if t = 0 \<and> p = 0 then \<lparr>m_time = 0, m_sequence = 0, m_state = CANDIDATE, m_preferred = True, m_priority = 2 ^ 63\<rparr>
      else if t = 0 \<and> p = 1 then \<lparr>m_time = 0, m_sequence = 1, m_state = CANDIDATE, m_preferred = True, m_priority = 2 ^ 63 + 1\<rparr>
      else \<lparr>m_time = 0, m_sequence = 0, m_state = NOTHING, m_preferred = False, m_priority = 0\<rparr>)"
  by (simp add: ex_two_candidates_def ReceivedInv_rows Tester_init_def ex_prio_def ReceivedInv_def Let_def)

lemma ex_two_candidates_now: "m_now ex_two_candidates = 244466666"
  by (simp add: ex_two_candidates_def Tester_init_def ReceivedInv_def Let_def)

lemma ex_two_candidates_reachable: "reachable ex_prio ex_TXIDS ex_two_candidates"
  unfolding ex_two_candidates_def
  by (intro reachable.intros) (simp_all add: MAX_PEERS_def MAX_TXIDS_def)

lemma ex_requested_twice_reachable: "reachable ex_prio ex_TXIDS ex_requested_twice"
  unfolding ex_requested_twice_def
  by (intro reachable.intros ex_two_candidates_reachable) (simp_all add: MAX_PEERS_def MAX_TXIDS_def)

lemma ex_one_completed_reachable: "reachable ex_prio ex_TXIDS ex_one_completed"
  unfolding ex_one_completed_def
  by (intro reachable.intros ex_two_candidates_reachable) (simp_all add: MAX_PEERS_def MAX_TXIDS_def)

lemma ex_all_completed_reachable: "reachable ex_prio ex_TXIDS ex_all_completed"
  unfolding ex_all_completed_def
  by (intro reachable.intros ex_one_completed_reachable) (simp_all add: MAX_PEERS_def MAX_TXIDS_def)

lemma ex_requested_twice_states:
  "m_state (m_announcements ex_requested_twice 0 0) = REQUESTED"
  "m_state (m_announcements ex_requested_twice 0 1) = COMPLETED"
  by (simp_all add: ex_requested_twice_def RequestedTx_rows RequestedTx_row_apply
        ex_two_candidates_cells MAX_PEERS_def)

lemma ex_one_completed_cells:
  "m_announcements ex_one_completed t p =
     (if t = 0 \<and> p = 1 then (m_announcements ex_two_candidates 0 1)\<lparr>m_state := COMPLETED\<rparr>
      else m_announcements ex_two_candidates t p)"
proof -
  have "\<not> resolved (set_state 1 COMPLETED (m_announcements ex_two_candidates 0))"
    by (auto simp: resolved_def ex_two_candidates_cells MAX_PEERS_def intro!: exI[of _ 0])
  then show ?thesis
    by (auto simp: ex_one_completed_def ReceivedResponse_rows Cleanup_row_apply ex_two_candidates_cells)
qed

lemma ex_all_completed_states:
  "p < MAX_PEERS \<Longrightarrow> m_state (m_announcements ex_all_completed 0 p) = NOTHING"
proof -
  assume p: "p < MAX_PEERS"
  have "resolved (set_state 0 COMPLETED (m_announcements ex_one_completed 0))"
    by (auto simp: resolved_def ex_one_completed_cells ex_two_candidates_cells)
  then show ?thesis using p
    by (auto simp: ex_all_completed_def ReceivedResponse_rows Cleanup_row_apply
          ex_one_completed_cells ex_two_candidates_cells)
qed

lemma ex_all_completed_seq: "m_current_sequence ex_all_completed = 2"
  by (simp add: ex_all_completed_def ex_one_completed_def ReceivedResponse_def
        ex_two_candidates_def ReceivedInv_def Tester_init_def Let_def)

subsection \<open>The counters\<close>

lemma Check_peer_eq:
  "Check_peer anns peer txids (a, b, c) =
     (a + length (filter (\<lambda>t. m_state (anns t peer) \<noteq> NOTHING) txids),
      b + length (filter (\<lambda>t. m_state (anns t peer) = REQUESTED) txids),
      c + length (filter (\<lambda>t. m_state (anns t peer) = CANDIDATE) txids))"
  by (induction txids arbitrary: a b c) auto

lemma length_filter_upt_card:
  "length (filter P [0..<n]) = card {t. t < n \<and> P t}"
proof -
  have "card (set (filter P [0..<n])) = length (filter P [0..<n])"
    by (rule distinct_card) simp
  moreover have "set (filter P [0..<n]) = {t. t < n \<and> P t}" by auto
  ultimately show ?thesis by simp
qed

subsection \<open>The vectors of GetRequestable\<close>

lemma GetRequestable_loop_result:
  "distinct txids \<Longrightarrow>
   fst (GetRequestable_loop TXIDS peer txids res ex s) =
     res @ map (\<lambda>t. (m_sequence (expire_cleanup (m_now s) (m_announcements s t) peer), t))
            (filter (\<lambda>t. sel_cond (m_now s) peer (expire_cleanup (m_now s) (m_announcements s t))) txids)"
proof (induction txids arbitrary: s res ex)
  case Nil
  then show ?case by simp
next
  case (Cons txid txids)
  let ?s2 = "Cleanup txid (upd_row txid (\<lambda>row. snd (expire_row (m_now s) [0..<MAX_PEERS] row)) s)"
  have now2: "m_now ?s2 = m_now s" by simp
  have row2: "m_announcements ?s2 txid = expire_cleanup (m_now s) (m_announcements s txid)"
    by (simp add: expire_cleanup_def)
  have other: "\<And>t. t \<in> set txids \<Longrightarrow> m_announcements ?s2 t = m_announcements s t"
    using Cons.prems by auto
  have d: "distinct txids" using Cons.prems by simp
  have f: "filter (\<lambda>t. sel_cond (m_now ?s2) peer (expire_cleanup (m_now ?s2) (m_announcements ?s2 t))) txids
         = filter (\<lambda>t. sel_cond (m_now s) peer (expire_cleanup (m_now s) (m_announcements s t))) txids"
    by (rule filter_cong) (use Cons.prems in auto)
  have m: "map (\<lambda>t. (m_sequence (expire_cleanup (m_now ?s2) (m_announcements ?s2 t) peer), t))
              (filter (\<lambda>t. sel_cond (m_now s) peer (expire_cleanup (m_now s) (m_announcements s t))) txids)
         = map (\<lambda>t. (m_sequence (expire_cleanup (m_now s) (m_announcements s t) peer), t))
              (filter (\<lambda>t. sel_cond (m_now s) peer (expire_cleanup (m_now s) (m_announcements s t))) txids)"
    by (rule map_cong) (use Cons.prems in auto)
  show ?case
    unfolding GetRequestable_loop.simps Let_def
    apply (subst Cons.IH[OF d])
    apply (simp only: f m)
    apply (simp add: sel_cond_def GetSelected_def expire_cleanup_def)
    done
qed

lemma GetRequestable_loop_expired:
  "distinct txids \<Longrightarrow>
   fst (snd (GetRequestable_loop TXIDS peer txids res ex s)) =
     ex @ concat (map (\<lambda>t. found_expired TXIDS (m_now s) (m_announcements s t) t) txids)"
proof (induction txids arbitrary: s res ex)
  case Nil
  then show ?case by simp
next
  case (Cons txid txids)
  let ?s2 = "Cleanup txid (upd_row txid (\<lambda>row. snd (expire_row (m_now s) [0..<MAX_PEERS] row)) s)"
  have other: "\<And>t. t \<in> set txids \<Longrightarrow> m_announcements ?s2 t = m_announcements s t"
    using Cons.prems by auto
  have d: "distinct txids" using Cons.prems by simp
  have m: "map (\<lambda>t. found_expired TXIDS (m_now ?s2) (m_announcements ?s2 t) t) txids
         = map (\<lambda>t. found_expired TXIDS (m_now s) (m_announcements s t) t) txids"
    by (rule map_cong) (use Cons.prems in auto)
  show ?case
    unfolding GetRequestable_loop.simps Let_def
    apply (subst Cons.IH[OF d])
    apply (simp only: m)
    apply (simp add: found_expired_def split: option.splits)
    done
qed

lemma selected_set:
  "set (selected (GetRequestable TXIDS peer s)) =
     {t. t < MAX_TXIDS \<and> sel_cond (m_now s) peer (expire_cleanup (m_now s) (m_announcements s t))}"
  using GetRequestable_loop_result[of "[0..<MAX_TXIDS]" TXIDS peer "[]" "[]" s]
  by (cases "GetRequestable_loop TXIDS peer [0..<MAX_TXIDS] [] [] s")
     (auto simp: GetRequestable_def selected_def image_iff)

lemma expired_set:
  "set (expired (GetRequestable TXIDS peer s)) =
     {(p, TXIDS t) | p t. t < MAX_TXIDS \<and> fst (expire_row (m_now s) [0..<MAX_PEERS] (m_announcements s t)) = Some p}"
  using GetRequestable_loop_expired[of "[0..<MAX_TXIDS]" TXIDS peer "[]" "[]" s]
  by (cases "GetRequestable_loop TXIDS peer [0..<MAX_TXIDS] [] [] s")
     (auto simp: GetRequestable_def expired_def found_expired_def split: option.splits)

lemma expire_cleanup_candidate:
  "m_state (row p) = CANDIDATE \<Longrightarrow> expire_cleanup now row p = row p"
proof -
  assume c: "m_state (row p) = CANDIDATE"
  let ?row1 = "snd (expire_row now [0..<MAX_PEERS] row)"
  have r1: "?row1 p = row p"
    using c by (auto simp: expire_row_snd split: option.splits dest: expire_row_Some)
  then have "p < MAX_PEERS \<Longrightarrow> \<not> resolved ?row1"
    using c by (auto simp: resolved_def)
  with r1 show ?thesis
    by (auto simp: expire_cleanup_def Cleanup_row_apply)
qed

lemma expire_cleanup_candidate_rev:
  "m_state (expire_cleanup now row p) = CANDIDATE \<Longrightarrow> m_state (row p) = CANDIDATE"
  by (auto simp: expire_cleanup_def Cleanup_row_apply expire_row_snd split: if_splits option.splits)

lemma expire_cleanup_ready:
  "ready now (expire_cleanup now' row p) \<longleftrightarrow> ready now (row p)"
  unfolding ready_def
  using expire_cleanup_candidate[of row p now'] expire_cleanup_candidate_rev[of now' row p]
  by auto

lemma sel_cond_sound:
  assumes "sel_cond now peer row"
  shows "ready now (row peer)"
    and "\<forall>p < MAX_PEERS. m_state (row p) \<noteq> REQUESTED"
    and "\<forall>p < MAX_PEERS. ready now (row p) \<longrightarrow> m_priority (row p) \<le> m_priority (row peer)"
proof -
  from assms have g: "GetSelected_loop row now [0..<MAX_PEERS] None 0 = Some peer"
    by (simp add: sel_cond_def)
  from GetSelected_loop_sound[OF g] obtain pr where
    a: "\<forall>p \<in> set [0..<MAX_PEERS]. m_state (row p) \<noteq> REQUESTED"
    and b: "peer \<in> set [0..<MAX_PEERS] \<and> ready now (row peer) \<and> pr = m_priority (row peer)"
    and c: "\<forall>p \<in> set [0..<MAX_PEERS]. ready now (row p) \<longrightarrow> m_priority (row p) \<le> pr"
    by auto
  from b show "ready now (row peer)" by simp
  from a show "\<forall>p < MAX_PEERS. m_state (row p) \<noteq> REQUESTED" by simp
  from b c show "\<forall>p < MAX_PEERS. ready now (row p) \<longrightarrow> m_priority (row p) \<le> m_priority (row peer)"
    by simp
qed

lemma sel_cond_complete:
  assumes "peer < MAX_PEERS" and "ready now (row peer)"
    and "\<forall>p < MAX_PEERS. m_state (row p) \<noteq> REQUESTED"
    and "\<forall>p < MAX_PEERS. ready now (row p) \<and> p \<noteq> peer \<longrightarrow> m_priority (row p) < m_priority (row peer)"
  shows "sel_cond now peer row"
proof -
  have "GetSelected_loop row now [0..<MAX_PEERS] None 0 = Some peer"
    by (rule GetSelected_loop_pick) (use assms in auto)
  with assms(2) show ?thesis by (simp add: sel_cond_def ready_def)
qed





lemma expire_row_single_fst:
  assumes "single_inflight_row row"
  shows "(fst (expire_row now [0..<MAX_PEERS] row) = Some p) =
         (p < MAX_PEERS \<and> m_state (row p) = REQUESTED \<and> m_time (row p) \<le> now)"
proof
  assume "fst (expire_row now [0..<MAX_PEERS] row) = Some p"
  from expire_row_Some[OF this] show "p < MAX_PEERS \<and> m_state (row p) = REQUESTED \<and> m_time (row p) \<le> now"
    by simp
next
  assume p: "p < MAX_PEERS \<and> m_state (row p) = REQUESTED \<and> m_time (row p) \<le> now"
  then have "fst (expire_row now [0..<MAX_PEERS] row) \<noteq> None"
    by (auto simp: expire_row_None)
  then obtain q where q: "fst (expire_row now [0..<MAX_PEERS] row) = Some q" by auto
  from expire_row_Some[OF q] have "q < MAX_PEERS \<and> m_state (row q) = REQUESTED" by simp
  with p assms have "q = p" unfolding single_inflight_row_def by blast
  with q show "fst (expire_row now [0..<MAX_PEERS] row) = Some p" by simp
qed

lemma expire_row_single_snd:
  assumes "single_inflight_row row"
  shows "snd (expire_row now [0..<MAX_PEERS] row) = complete_expired now row"
proof (cases "fst (expire_row now [0..<MAX_PEERS] row)")
  case None
  then have "\<forall>p < MAX_PEERS. \<not> (m_state (row p) = REQUESTED \<and> m_time (row p) \<le> now)"
    by (simp add: expire_row_None)
  then have "complete_expired now row = row"
    by (auto simp: complete_expired_def)
  with None show ?thesis by (simp add: expire_row_snd)
next
  case (Some q)
  have "complete_expired now row p = set_state q COMPLETED row p" for p
    using expire_row_single_fst[OF assms, of now p] Some
    by (auto simp: complete_expired_def)
  then have "complete_expired now row = set_state q COMPLETED row" by (rule ext)
  with Some show ?thesis by (simp add: expire_row_snd)
qed

lemma AdvanceTime_now [simp]: "m_now (AdvanceTime offset s) = m_now s + offset"
  by (simp add: AdvanceTime_def Let_def)

lemma RequestedTx_now [simp]: "m_now (RequestedTx peer txid exptime s) = m_now s"
  by (simp add: RequestedTx_def Let_def)

lemma fallback_after_expiry:
  assumes p1: "p1 < MAX_PEERS" and p2: "p2 < MAX_PEERS" and i: "i < MAX_TXIDS"
    and c1: "m_state (m_announcements s0 i p1) = CANDIDATE" and ne: "p2 \<noteq> p1"
    and ext: "exptime \<le> m_now s0 + offset"
    and r2: "ready (m_now s0 + offset) (m_announcements s0 i p2)"
    and best: "\<forall>p < MAX_PEERS. p \<noteq> p2 \<and> p \<noteq> p1 \<and> ready (m_now s0 + offset) (m_announcements s0 i p) \<longrightarrow>
                 m_priority (m_announcements s0 i p) < m_priority (m_announcements s0 i p2)"
  shows "i \<in> set (selected (GetRequestable TXIDS p2 (AdvanceTime offset (RequestedTx p1 i exptime s0))))
       \<and> (p1, TXIDS i) \<in> set (expired (GetRequestable TXIDS p2 (AdvanceTime offset (RequestedTx p1 i exptime s0))))"
proof -
  let ?now = "m_now s0 + offset"
  let ?row0 = "m_announcements s0 i"
  let ?row1 = "RequestedTx_row p1 exptime ?row0"
  let ?s2 = "AdvanceTime offset (RequestedTx p1 i exptime s0)"
  have row1: "m_announcements ?s2 i = ?row1" using c1 by (simp add: RequestedTx_rows)
  have now2: "m_now ?s2 = ?now" by simp
  have single: "single_inflight_row ?row1" by (rule RequestedTx_row_single)
  have "fst (expire_row ?now [0..<MAX_PEERS] ?row1) = Some p1"
    using p1 ext by (simp add: expire_row_single_fst[OF single] RequestedTx_row_apply)
  then have e: "(p1, TXIDS i) \<in> set (expired (GetRequestable TXIDS p2 ?s2))"
    unfolding expired_set using i row1 now2 by auto
  let ?R = "expire_cleanup ?now ?row1"
  have keep: "?row1 p = ?row0 p" if "p \<noteq> p1" "m_state (?row0 p) = CANDIDATE" for p
    using that by (simp add: RequestedTx_row_apply)
  have from_row1: "p \<noteq> p1 \<and> ready ?now (?row0 p) \<and> ?row1 p = ?row0 p" if "ready ?now (?row1 p)" for p
    using that by (auto simp: RequestedTx_row_apply ready_def split: if_splits)
  have r2': "ready ?now (?row1 p2)" using keep[of p2] ne r2 by (simp add: ready_def)
  have R2: "?R p2 = ?row0 p2"
    using r2' keep[of p2] ne r2 by (simp add: ready_def expire_cleanup_candidate)
  have a: "ready ?now (?R p2)" using r2' by (simp add: expire_cleanup_ready)
  have b: "\<forall>p < MAX_PEERS. m_state (?R p) \<noteq> REQUESTED"
  proof (intro allI impI)
    fix p assume p: "p < MAX_PEERS"
    have cand: "m_state (complete_expired ?now ?row1 p2) = CANDIDATE"
      using r2' by (simp add: complete_expired_def ready_def)
    have nres: "\<not> resolved (complete_expired ?now ?row1)"
    proof
      assume "resolved (complete_expired ?now ?row1)"
      then have "m_state (complete_expired ?now ?row1 p2) = NOTHING
               \<or> m_state (complete_expired ?now ?row1 p2) = COMPLETED"
        using p2 unfolding resolved_def by blast
      with cand show False by simp
    qed
    have "?R p = complete_expired ?now ?row1 p"
      using nres by (simp add: expire_cleanup_def expire_row_single_snd[OF single] Cleanup_row_apply)
    then show "m_state (?R p) \<noteq> REQUESTED"
      using p ext by (auto simp: complete_expired_def RequestedTx_row_apply)
  qed
  have c: "\<forall>p < MAX_PEERS. ready ?now (?R p) \<and> p \<noteq> p2 \<longrightarrow> m_priority (?R p) < m_priority (?R p2)"
  proof (intro allI impI)
    fix p assume p: "p < MAX_PEERS" and h: "ready ?now (?R p) \<and> p \<noteq> p2"
    then have r1: "ready ?now (?row1 p)" by (simp add: expire_cleanup_ready)
    from from_row1[OF r1] have bk: "p \<noteq> p1" "ready ?now (?row0 p)" "?row1 p = ?row0 p" by simp_all
    from r1 have "?R p = ?row1 p" by (simp add: ready_def expire_cleanup_candidate)
    with bk have Rp: "?R p = ?row0 p" by simp
    from best p h bk have "m_priority (?row0 p) < m_priority (?row0 p2)" by blast
    with Rp R2 show "m_priority (?R p) < m_priority (?R p2)" by simp
  qed
  have "sel_cond ?now p2 ?R" by (rule sel_cond_complete[OF p2 a b c])
  then have "i \<in> set (selected (GetRequestable TXIDS p2 ?s2))"
    unfolding selected_set using i row1 now2 by simp
  with e show ?thesis by simp
qed

lemma ex_request_expired_reachable: "reachable ex_prio ex_TXIDS ex_request_expired"
  unfolding ex_request_expired_def
  by (intro reachable.intros ex_two_candidates_reachable) (simp_all add: MAX_PEERS_def MAX_TXIDS_def)


subsection \<open>The driver and the assertions of Check\<close>








lemma Check_peer_card:
  "tracked s peer = Count s peer" "inflight s peer = CountInFlight s peer"
  "candidates s peer = CountCandidates s peer"
  by (simp_all add: tracked_def inflight_def candidates_def Check_peer_eq length_filter_upt_card
        Count_def CountInFlight_def CountCandidates_def)

lemma Check_asserts_eq:
  "Check_asserts cnt cif cc s peers acc =
     (if \<forall>p \<in> set peers. cnt p = Count s p \<and> cif p = CountInFlight s p \<and> cc p = CountCandidates s p
      then Inr (acc + sum_list (map (Count s) peers)) else Inl AssertionFailed)"
  by (induction peers arbitrary: acc) (auto simp: Check_peer_card)

lemma Size_sum: "Size s = (\<Sum>p < MAX_PEERS. Count s p)"
proof -
  have "{(peer, txid). peer < MAX_PEERS \<and> txid < MAX_TXIDS
            \<and> m_state (m_announcements s txid peer) \<noteq> NOTHING}
      = (SIGMA peer : {..<MAX_PEERS}. {txid. txid < MAX_TXIDS
            \<and> m_state (m_announcements s txid peer) \<noteq> NOTHING})"
    by auto
  then show ?thesis
    by (simp add: Size_def Count_def)
qed

lemma Check_eq:
  "Check cnt cif cc sz s = Inr () \<longleftrightarrow>
     (\<forall>p < MAX_PEERS. cnt p = Count s p \<and> cif p = CountInFlight s p \<and> cc p = CountCandidates s p)
     \<and> sz = Size s"
  by (auto simp: Check_def Check_asserts_eq Size_sum interv_sum_list_conv_sum_set_nat atLeast0LessThan)

lemma inflight_candidates_le_count:
  "CountInFlight s peer + CountCandidates s peer \<le> Count s peer"
proof -
  let ?T = "{t. t < MAX_TXIDS \<and> m_state (m_announcements s t peer) \<noteq> NOTHING}"
  let ?R = "{t. t < MAX_TXIDS \<and> m_state (m_announcements s t peer) = REQUESTED}"
  let ?C = "{t. t < MAX_TXIDS \<and> m_state (m_announcements s t peer) = CANDIDATE}"
  have fin: "finite ?T" by simp
  have "?R \<inter> ?C = {}" by auto
  moreover have "?R \<union> ?C \<subseteq> ?T" by auto
  ultimately have "card ?R + card ?C \<le> card ?T"
    by (metis (no_types, lifting) card_Un_disjoint card_mono fin finite_subset le_sup_iff)
  then show ?thesis by (simp add: Count_def CountInFlight_def CountCandidates_def)
qed

section \<open>Responses\<close>

text \<open>
  Claim C1, as the code has it. \<open>ReceivedResponse\<close> for an existing announcement completes
  this announcement and leaves the announcements of the other peers for the txid as they
  are, candidates included; only when every other announcement for the txid is absent or
  completed, the whole row is wiped. The rows of other txids do not change.
\<close>

theorem ReceivedResponse_effect:
  assumes "peer < MAX_PEERS" and "m_state (m_announcements s txid peer) \<noteq> NOTHING"
  shows "(if \<forall>p < MAX_PEERS. p \<noteq> peer \<longrightarrow>
              m_state (m_announcements s txid p) = NOTHING \<or> m_state (m_announcements s txid p) = COMPLETED
          then \<forall>p < MAX_PEERS. m_state (m_announcements (ReceivedResponse peer txid s) txid p) = NOTHING
          else m_state (m_announcements (ReceivedResponse peer txid s) txid peer) = COMPLETED
             \<and> (\<forall>p. p \<noteq> peer \<longrightarrow>
                  m_announcements (ReceivedResponse peer txid s) txid p = m_announcements s txid p))
         \<and> (\<forall>t. t \<noteq> txid \<longrightarrow> m_announcements (ReceivedResponse peer txid s) t = m_announcements s t)"
proof -
  let ?row = "set_state peer COMPLETED (m_announcements s txid)"
  have res: "resolved ?row \<longleftrightarrow> (\<forall>p < MAX_PEERS. p \<noteq> peer \<longrightarrow>
              m_state (m_announcements s txid p) = NOTHING \<or> m_state (m_announcements s txid p) = COMPLETED)"
    by (auto simp: resolved_def)
  show ?thesis
    using assms res by (auto simp: ReceivedResponse_rows Cleanup_row_apply)
qed

theorem ReceivedResponse_effect_witness:
  "(1::nat) < MAX_PEERS \<and> m_state (m_announcements ex_two_candidates 0 1) \<noteq> NOTHING
   \<and> m_state (m_announcements (ReceivedResponse 1 0 ex_two_candidates) 0 1) = COMPLETED
   \<and> m_announcements (ReceivedResponse 1 0 ex_two_candidates) 0 0 = m_announcements ex_two_candidates 0 0"
proof -
  have a: "(1::nat) < MAX_PEERS" by (simp add: MAX_PEERS_def)
  have b: "m_state (m_announcements ex_two_candidates 0 1) \<noteq> NOTHING"
    by (simp add: ex_two_candidates_cells)
  have c: "\<not> (\<forall>p < MAX_PEERS. p \<noteq> 1 \<longrightarrow>
              m_state (m_announcements ex_two_candidates 0 p) = NOTHING
            \<or> m_state (m_announcements ex_two_candidates 0 p) = COMPLETED)"
    by (auto simp: ex_two_candidates_cells MAX_PEERS_def intro!: exI[of _ 0])
  from ReceivedResponse_effect[OF a b] c
  have "m_state (m_announcements (ReceivedResponse 1 0 ex_two_candidates) 0 1) = COMPLETED
      \<and> (\<forall>p. p \<noteq> 1 \<longrightarrow>
            m_announcements (ReceivedResponse 1 0 ex_two_candidates) 0 p = m_announcements ex_two_candidates 0 p)"
    by (simp only: if_False) blast
  with a b show ?thesis by simp
qed

text \<open>
  Claim C1 as stated fails: peers 0 and 1 have announced txid 0 and peer 1 answers. The
  candidate of peer 0 is still there, and \<open>GetRequestable\<close> for peer 0 returns txid 0.
\<close>

theorem ReceivedResponse_keeps_candidates_counterexample:
  "m_state (m_announcements ex_two_candidates 0 1) \<noteq> NOTHING
   \<and> m_state (m_announcements ex_two_candidates 0 0) = CANDIDATE
   \<and> m_state (m_announcements (ReceivedResponse 1 0 ex_two_candidates) 0 1) = COMPLETED
   \<and> m_state (m_announcements (ReceivedResponse 1 0 ex_two_candidates) 0 0) = CANDIDATE
   \<and> selected (GetRequestable ex_TXIDS 0 (ReceivedResponse 1 0 ex_two_candidates)) = [0]"
  by code_simp

section \<open>Duplicate announcements and unknown responses\<close>

text \<open>
  Claim C7. When an announcement for (peer, txid) exists in any state, \<open>ReceivedInv\<close> for
  that pair leaves the whole state of the tester unchanged, whatever \<open>preferred\<close> and
  \<open>reqtime\<close> it passes; hence a second \<open>ReceivedInv\<close> for the same pair, right after a
  first one, changes nothing.
\<close>

theorem ReceivedInv_duplicate_ignored:
  "(m_state (m_announcements s txid peer) \<noteq> NOTHING \<longrightarrow>
      ReceivedInv prio peer txid is_wtxid' preferred' reqtime' s = s)
   \<and> ReceivedInv prio peer txid is_wtxid' preferred' reqtime'
        (ReceivedInv prio peer txid is_wtxid preferred reqtime s)
      = ReceivedInv prio peer txid is_wtxid preferred reqtime s"
proof
  show "m_state (m_announcements s txid peer) \<noteq> NOTHING \<longrightarrow>
      ReceivedInv prio peer txid is_wtxid' preferred' reqtime' s = s"
    by (simp add: ReceivedInv_def)
next
  have "m_state (m_announcements (ReceivedInv prio peer txid is_wtxid preferred reqtime s) txid peer)
          \<noteq> NOTHING"
    by (simp add: ReceivedInv_def Let_def)
  then show "ReceivedInv prio peer txid is_wtxid' preferred' reqtime'
        (ReceivedInv prio peer txid is_wtxid preferred reqtime s)
      = ReceivedInv prio peer txid is_wtxid preferred reqtime s"
    by (simp add: ReceivedInv_def[of prio peer txid is_wtxid' preferred' reqtime'])
qed

theorem ReceivedInv_duplicate_ignored_witness:
  "m_state (m_announcements (ReceivedInv ex_prio 3 5 False True 7 Tester_init) 5 3) \<noteq> NOTHING
   \<and> ReceivedInv ex_prio 3 5 True False 900000000 (ReceivedInv ex_prio 3 5 False True 7 Tester_init)
      = ReceivedInv ex_prio 3 5 False True 7 Tester_init"
  using ReceivedInv_duplicate_ignored [of "ReceivedInv ex_prio 3 5 False True 7 Tester_init" 5 3
      ex_prio True False 900000000 False True 7]
  by (simp add: ReceivedInv_def Tester_init_def Let_def)



section \<open>Invariants of the reachable states\<close>

text \<open>
  Claim C2. In every state that a sequence of public calls can reach, at most one
  announcement of a txid is \<open>REQUESTED\<close>: when the announcement of one peer is, that of
  any other peer is not.
\<close>

theorem single_inflight:
  assumes "reachable prio TXIDS s" and "p < MAX_PEERS" and "q < MAX_PEERS" and "p \<noteq> q"
    and "m_state (m_announcements s txid p) = REQUESTED"
  shows "m_state (m_announcements s txid q) \<noteq> REQUESTED"
  using reachable_single_inflight[OF assms(1), of txid] assms(2-5)
  unfolding single_inflight_row_def by blast

text \<open>
  The state after peers 0 and 1 announced txid 0, peer 1 was requested and then peer 0:
  peer 0 is in flight and peer 1 is not.
\<close>

theorem single_inflight_witness:
  "reachable ex_prio ex_TXIDS ex_requested_twice \<and> (0::nat) < MAX_PEERS \<and> (1::nat) < MAX_PEERS
   \<and> (0::nat) \<noteq> 1
   \<and> m_state (m_announcements ex_requested_twice 0 0) = REQUESTED
   \<and> m_state (m_announcements ex_requested_twice 0 1) \<noteq> REQUESTED"
proof -
  have a: "(0::nat) < MAX_PEERS" "(1::nat) < MAX_PEERS" by (simp_all add: MAX_PEERS_def)
  have b: "(0::nat) \<noteq> 1" by simp
  note c = ex_requested_twice_states(1)
  from single_inflight[OF ex_requested_twice_reachable a b c] ex_requested_twice_reachable a b c
  show ?thesis by simp
qed

text \<open>
  Claim C6. In every reachable state a \<open>COMPLETED\<close> announcement of a txid exists only
  beside a \<open>CANDIDATE\<close> or \<open>REQUESTED\<close> announcement of the same txid; a txid without
  candidate and request has no announcement at all (it is forgotten), so that
  \<open>ReceivedInv\<close> for it creates a fresh candidate with the next sequence number.
\<close>

theorem no_item_only_completed:
  assumes "reachable prio TXIDS s" and "peer < MAX_PEERS"
  shows "(m_state (m_announcements s txid peer) = COMPLETED \<longrightarrow>
            (\<exists>q < MAX_PEERS. m_state (m_announcements s txid q) = CANDIDATE
                           \<or> m_state (m_announcements s txid q) = REQUESTED))
       \<and> ((\<forall>q < MAX_PEERS. m_state (m_announcements s txid q) \<noteq> CANDIDATE
                           \<and> m_state (m_announcements s txid q) \<noteq> REQUESTED) \<longrightarrow>
            m_state (m_announcements s txid peer) = NOTHING
          \<and> m_announcements (ReceivedInv prio peer txid is_wtxid preferred reqtime s) txid peer =
              \<lparr>m_time = reqtime, m_sequence = m_current_sequence s, m_state = CANDIDATE,
               m_preferred = preferred, m_priority = prio txid peer preferred\<rparr>)"
proof -
  have inv: "resolved (m_announcements s txid) \<longrightarrow>
               (\<forall>p < MAX_PEERS. m_state (m_announcements s txid p) = NOTHING)"
    using reachable_forgotten_if_resolved[OF assms(1), of txid]
    by (simp add: forgotten_if_resolved_def)
  have res: "resolved (m_announcements s txid) \<longleftrightarrow>
               (\<forall>q < MAX_PEERS. m_state (m_announcements s txid q) \<noteq> CANDIDATE
                              \<and> m_state (m_announcements s txid q) \<noteq> REQUESTED)"
    unfolding resolved_def by (metis State.exhaust State.distinct)
  show ?thesis
  proof (intro conjI impI)
    assume c: "m_state (m_announcements s txid peer) = COMPLETED"
    show "\<exists>q < MAX_PEERS. m_state (m_announcements s txid q) = CANDIDATE
                       \<or> m_state (m_announcements s txid q) = REQUESTED"
    proof (rule ccontr)
      assume "\<not> ?thesis"
      then have "resolved (m_announcements s txid)" using res by blast
      with inv assms(2) c show False by auto
    qed
  next
    assume n: "\<forall>q < MAX_PEERS. m_state (m_announcements s txid q) \<noteq> CANDIDATE
                           \<and> m_state (m_announcements s txid q) \<noteq> REQUESTED"
    then have "resolved (m_announcements s txid)" using res by blast
    with inv assms(2) show "m_state (m_announcements s txid peer) = NOTHING" by blast
  next
    assume n: "\<forall>q < MAX_PEERS. m_state (m_announcements s txid q) \<noteq> CANDIDATE
                           \<and> m_state (m_announcements s txid q) \<noteq> REQUESTED"
    then have "resolved (m_announcements s txid)" using res by blast
    with inv assms(2) have "m_state (m_announcements s txid peer) = NOTHING" by blast
    then show "m_announcements (ReceivedInv prio peer txid is_wtxid preferred reqtime s) txid peer =
              \<lparr>m_time = reqtime, m_sequence = m_current_sequence s, m_state = CANDIDATE,
               m_preferred = preferred, m_priority = prio txid peer preferred\<rparr>"
      by (simp add: ReceivedInv_rows)
  qed
qed

text \<open>
  After the response of peer 1 its announcement is completed beside the candidate of peer 0;
  after the response of peer 0 as well the row is empty, and peer 1 can announce again.
\<close>

theorem no_item_only_completed_witness:
  "reachable ex_prio ex_TXIDS ex_one_completed \<and> (1::nat) < MAX_PEERS
   \<and> m_state (m_announcements ex_one_completed 0 1) = COMPLETED
   \<and> (\<exists>q < MAX_PEERS. m_state (m_announcements ex_one_completed 0 q) = CANDIDATE
                     \<or> m_state (m_announcements ex_one_completed 0 q) = REQUESTED)
   \<and> reachable ex_prio ex_TXIDS ex_all_completed
   \<and> \<not> (\<exists>q < MAX_PEERS. m_state (m_announcements ex_all_completed 0 q) = CANDIDATE
                     \<or> m_state (m_announcements ex_all_completed 0 q) = REQUESTED)
   \<and> m_state (m_announcements ex_all_completed 0 1) = NOTHING
   \<and> m_announcements (ReceivedInv ex_prio 1 0 False False 5 ex_all_completed) 0 1 =
        \<lparr>m_time = 5, m_sequence = 2, m_state = CANDIDATE, m_preferred = False, m_priority = 1\<rparr>"
proof -
  have a: "(1::nat) < MAX_PEERS" by (simp add: MAX_PEERS_def)
  have b: "m_state (m_announcements ex_one_completed 0 1) = COMPLETED"
    by (simp add: ex_one_completed_cells ex_two_candidates_cells)
  have c: "\<forall>q < MAX_PEERS. m_state (m_announcements ex_all_completed 0 q) \<noteq> CANDIDATE
                     \<and> m_state (m_announcements ex_all_completed 0 q) \<noteq> REQUESTED"
    by (simp add: ex_all_completed_states)
  from no_item_only_completed[OF ex_one_completed_reachable a, of 0] b
  have d: "\<exists>q < MAX_PEERS. m_state (m_announcements ex_one_completed 0 q) = CANDIDATE
                     \<or> m_state (m_announcements ex_one_completed 0 q) = REQUESTED"
    by blast
  from no_item_only_completed[OF ex_all_completed_reachable a, of 0 False False 5] c
  have e: "m_state (m_announcements ex_all_completed 0 1) = NOTHING
     \<and> m_announcements (ReceivedInv ex_prio 1 0 False False 5 ex_all_completed) 0 1 =
        \<lparr>m_time = 5, m_sequence = m_current_sequence ex_all_completed, m_state = CANDIDATE,
         m_preferred = False, m_priority = ex_prio 0 1 False\<rparr>"
    by blast
  from c have c': "\<not> (\<exists>q < MAX_PEERS. m_state (m_announcements ex_all_completed 0 q) = CANDIDATE
                     \<or> m_state (m_announcements ex_all_completed 0 q) = REQUESTED)"
    by blast
  from a b c' d e ex_one_completed_reachable ex_all_completed_reachable show ?thesis
    by (simp add: ex_all_completed_seq ex_prio_def)
qed

section \<open>Requests\<close>

text \<open>
  Claim C5. When the announcement of (peer, txid) is a candidate, \<open>RequestedTx\<close> makes it
  \<open>REQUESTED\<close> with time \<open>exptime\<close> and changes nothing else in it; every other
  announcement of the txid that was \<open>REQUESTED\<close> becomes \<open>COMPLETED\<close>, with its other
  fields unchanged, and every other announcement stays as it is. When the announcement is
  absent or not a candidate, no announcement changes (nor do the sequence counter and the clock).
\<close>

theorem RequestedTx_effect:
  "(m_state (m_announcements s txid peer) = CANDIDATE \<longrightarrow>
      m_announcements (RequestedTx peer txid exptime s) txid peer =
        (m_announcements s txid peer)\<lparr>m_state := REQUESTED, m_time := exptime\<rparr>
    \<and> (\<forall>p < MAX_PEERS. p \<noteq> peer \<longrightarrow>
         (if m_state (m_announcements s txid p) = REQUESTED
          then m_announcements (RequestedTx peer txid exptime s) txid p =
                 (m_announcements s txid p)\<lparr>m_state := COMPLETED\<rparr>
          else m_announcements (RequestedTx peer txid exptime s) txid p = m_announcements s txid p))
    \<and> (\<forall>t. t \<noteq> txid \<longrightarrow> m_announcements (RequestedTx peer txid exptime s) t = m_announcements s t))
   \<and> (m_state (m_announcements s txid peer) \<noteq> CANDIDATE \<longrightarrow>
        m_announcements (RequestedTx peer txid exptime s) = m_announcements s
      \<and> m_current_sequence (RequestedTx peer txid exptime s) = m_current_sequence s
      \<and> m_now (RequestedTx peer txid exptime s) = m_now s)"
  by (auto simp: RequestedTx_rows RequestedTx_row_apply RequestedTx_def Let_def)

text \<open>
  Peers 0 and 1 are candidates for txid 0; peer 1 is requested, then peer 0: peer 1 is
  completed. A third request for peer 1, which is not a candidate any more, changes nothing.
\<close>

theorem RequestedTx_effect_witness:
  "m_state (m_announcements (RequestedTx 1 0 300000000 ex_two_candidates) 0 0) = CANDIDATE
   \<and> m_state (m_announcements (RequestedTx 1 0 300000000 ex_two_candidates) 0 1) = REQUESTED
   \<and> m_state (m_announcements ex_requested_twice 0 0) = REQUESTED
   \<and> m_time (m_announcements ex_requested_twice 0 0) = 300000000
   \<and> m_priority (m_announcements ex_requested_twice 0 0) = 2 ^ 63
   \<and> m_announcements ex_requested_twice 0 1
       = (m_announcements (RequestedTx 1 0 300000000 ex_two_candidates) 0 1)\<lparr>m_state := COMPLETED\<rparr>
   \<and> m_state (m_announcements ex_requested_twice 0 1) \<noteq> CANDIDATE
   \<and> m_announcements (RequestedTx 1 0 7 ex_requested_twice) = m_announcements ex_requested_twice"
proof -
  let ?s = "RequestedTx 1 0 300000000 ex_two_candidates"
  have a: "m_state (m_announcements ?s 0 0) = CANDIDATE"
    and b: "m_state (m_announcements ?s 0 1) = REQUESTED"
    and b': "m_priority (m_announcements ?s 0 0) = 2 ^ 63"
    by (simp_all add: RequestedTx_rows RequestedTx_row_apply ex_two_candidates_cells MAX_PEERS_def)
  have c: "(1::nat) < MAX_PEERS" "(1::nat) \<noteq> 0" by (simp_all add: MAX_PEERS_def)
  from RequestedTx_effect[of ?s 0 0 300000000] a
  have d: "m_announcements (RequestedTx 0 0 300000000 ?s) 0 0 =
        (m_announcements ?s 0 0)\<lparr>m_state := REQUESTED, m_time := 300000000\<rparr>"
    and e: "\<forall>p < MAX_PEERS. p \<noteq> 0 \<longrightarrow>
         (if m_state (m_announcements ?s 0 p) = REQUESTED
          then m_announcements (RequestedTx 0 0 300000000 ?s) 0 p =
                 (m_announcements ?s 0 p)\<lparr>m_state := COMPLETED\<rparr>
          else m_announcements (RequestedTx 0 0 300000000 ?s) 0 p = m_announcements ?s 0 p)"
    by blast+
  from e c b have f: "m_announcements (RequestedTx 0 0 300000000 ?s) 0 1 =
                 (m_announcements ?s 0 1)\<lparr>m_state := COMPLETED\<rparr>"
    by (metis (full_types))
  have g: "m_state (m_announcements ex_requested_twice 0 1) \<noteq> CANDIDATE"
    using f by (simp add: ex_requested_twice_def)
  from RequestedTx_effect[of ex_requested_twice 0 1 7] g
  have h: "m_announcements (RequestedTx 1 0 7 ex_requested_twice) = m_announcements ex_requested_twice"
    by blast
  from a b b' d f g h show ?thesis
    by (simp add: ex_requested_twice_def)
qed

section \<open>The counters of Check\<close>

text \<open>
  Claim C10. For every state (reachable or not) and every peer: the assertions of \<open>Check\<close>
  hold for the accessors as modelled; \<open>CountInFlight\<close> and \<open>CountCandidates\<close> together are
  at most \<open>Count\<close>; \<open>Size\<close> is the sum of \<open>Count\<close> over the peers. And whatever
  values the tracker returns, when the assertions of \<open>Check\<close> hold these values are the
  modelled ones (the number of announcements of the peer, of its requested ones, of its
  candidates, and the number of all announcements) and are consistent in the same way.
\<close>

theorem accessors_consistent:
  "Check (Count s) (CountInFlight s) (CountCandidates s) (Size s) s = Inr ()
   \<and> CountInFlight s peer + CountCandidates s peer \<le> Count s peer
   \<and> Size s = (\<Sum>p < MAX_PEERS. Count s p)
   \<and> (Check tr_Count tr_CountInFlight tr_CountCandidates tr_Size s = Inr () \<and> peer < MAX_PEERS \<longrightarrow>
         tr_Count peer = Count s peer
       \<and> tr_CountInFlight peer = CountInFlight s peer
       \<and> tr_CountCandidates peer = CountCandidates s peer
       \<and> tr_Size = Size s
       \<and> tr_CountInFlight peer + tr_CountCandidates peer \<le> tr_Count peer
       \<and> tr_Size = (\<Sum>p < MAX_PEERS. tr_Count p))"
proof (intro conjI impI)
  show "Check (Count s) (CountInFlight s) (CountCandidates s) (Size s) s = Inr ()"
    by (simp add: Check_eq)
  show "CountInFlight s peer + CountCandidates s peer \<le> Count s peer"
    by (rule inflight_candidates_le_count)
  show "Size s = (\<Sum>p < MAX_PEERS. Count s p)" by (rule Size_sum)
next
  assume h: "Check tr_Count tr_CountInFlight tr_CountCandidates tr_Size s = Inr () \<and> peer < MAX_PEERS"
  then have eq: "\<forall>p < MAX_PEERS. tr_Count p = Count s p \<and> tr_CountInFlight p = CountInFlight s p
                   \<and> tr_CountCandidates p = CountCandidates s p"
    and sz: "tr_Size = Size s"
    by (simp_all add: Check_eq)
  from eq h show "tr_Count peer = Count s peer" by blast
  from eq h show "tr_CountInFlight peer = CountInFlight s peer" by blast
  from eq h show "tr_CountCandidates peer = CountCandidates s peer" by blast
  from sz show "tr_Size = Size s" .
  from eq h inflight_candidates_le_count[of s peer]
  show "tr_CountInFlight peer + tr_CountCandidates peer \<le> tr_Count peer" by simp
  have "(\<Sum>p < MAX_PEERS. tr_Count p) = (\<Sum>p < MAX_PEERS. Count s p)"
    by (rule sum.cong) (use eq in auto)
  with sz show "tr_Size = (\<Sum>p < MAX_PEERS. tr_Count p)" by (simp add: Size_sum)
qed

text \<open>
  Peer 0 is in flight and peer 1 completed for txid 0: the values 1, 1, 0 for peer 0 and the
  size 2 pass the assertions, and are what the accessors give.
\<close>

theorem accessors_consistent_witness:
  "Check (\<lambda>p. if p < 2 then 1 else 0) (\<lambda>p. if p = 0 then 1 else 0) (\<lambda>p. 0) 2 ex_requested_twice = Inr ()
   \<and> (0::nat) < MAX_PEERS
   \<and> Count ex_requested_twice 0 = 1
   \<and> CountInFlight ex_requested_twice 0 = 1
   \<and> CountCandidates ex_requested_twice 0 = 0
   \<and> Size ex_requested_twice = 2"
proof -
  have a: "Check (\<lambda>p. if p < 2 then 1 else 0) (\<lambda>p. if p = 0 then 1 else 0) (\<lambda>p. 0) 2 ex_requested_twice = Inr ()"
    by code_simp
  have b: "(0::nat) < MAX_PEERS" by (simp add: MAX_PEERS_def)
  from accessors_consistent[of ex_requested_twice 0 "\<lambda>p. if p < 2 then 1 else 0"
      "\<lambda>p. if p = 0 then 1 else 0" "\<lambda>p. 0" 2] a b
  show ?thesis by simp
qed

section \<open>The items returned by GetRequestable\<close>




section \<open>Time that moves backward\<close>

text \<open>
  Claim C8, as the code has it. Whether a candidate is ready is not stored: every call of
  \<open>GetRequestable\<close> compares the candidate's time with the clock of that call. A
  candidate whose time is after the clock is not returned, whatever earlier calls returned;
  the announcement itself stays as it is.
\<close>

theorem GetRequestable_not_before_reqtime:
  assumes "m_state (m_announcements s txid peer) = CANDIDATE"
    and "m_now s < m_time (m_announcements s txid peer)"
  shows "txid \<notin> set (selected (GetRequestable TXIDS peer s))
       \<and> m_announcements (state_after (GetRequestable TXIDS peer s)) txid peer
           = m_announcements s txid peer"
proof
  show "txid \<notin> set (selected (GetRequestable TXIDS peer s))"
  proof
    assume "txid \<in> set (selected (GetRequestable TXIDS peer s))"
    then have "sel_cond (m_now s) peer (expire_cleanup (m_now s) (m_announcements s txid))"
      by (simp add: selected_set)
    from sel_cond_sound(1)[OF this] have "ready (m_now s) (m_announcements s txid peer)"
      by (simp add: expire_cleanup_ready)
    with assms(2) show False by (simp add: ready_def)
  qed
next
  show "m_announcements (state_after (GetRequestable TXIDS peer s)) txid peer
           = m_announcements s txid peer"
    using assms(1) by (simp add: GetRequestable_rows expire_cleanup_candidate)
qed

text \<open>
  The clock is set back by one microsecond after a call that returned txid 0.
\<close>

theorem GetRequestable_not_before_reqtime_witness:
  "m_state (m_announcements ex_back_in_time 0 0) = CANDIDATE
   \<and> m_now ex_back_in_time < m_time (m_announcements ex_back_in_time 0 0)
   \<and> 0 \<notin> set (selected (GetRequestable ex_TXIDS 0 ex_back_in_time))
   \<and> m_state (m_announcements (state_after (GetRequestable ex_TXIDS 0 ex_back_in_time)) 0 0) = CANDIDATE"
proof -
  have a: "m_state (m_announcements ex_back_in_time 0 0) = CANDIDATE" by code_simp
  have b: "m_now ex_back_in_time < m_time (m_announcements ex_back_in_time 0 0)" by code_simp
  from GetRequestable_not_before_reqtime[OF a b, of ex_TXIDS] a b show ?thesis by simp
qed

text \<open>
  Claim C8 as stated fails: peer 0 announces txid 0 with a time equal to the clock, and
  \<open>GetRequestable\<close> returns the txid. With the clock one microsecond earlier the announcement is still
  a candidate, its time is after the clock, and the same call returns nothing.
\<close>

theorem ready_is_not_remembered_counterexample:
  "m_time (m_announcements ex_ready_at_now 0 0) \<le> m_now ex_ready_at_now
   \<and> selected (GetRequestable ex_TXIDS 0 ex_ready_at_now) = [0]
   \<and> m_state (m_announcements ex_back_in_time 0 0) = CANDIDATE
   \<and> m_now ex_back_in_time < m_time (m_announcements ex_back_in_time 0 0)
   \<and> selected (GetRequestable ex_TXIDS 0 ex_back_in_time) = []"
  by code_simp

section \<open>Expired requests\<close>

text \<open>
  Claim C4, as the code has it. In a reachable state, the pairs that \<open>GetRequestable\<close>
  reports as expired are exactly the (peer, identifier) pairs of the announcements that are
  \<open>REQUESTED\<close> with a time at most the clock; each of them is completed and \<open>Cleanup\<close>
  is applied to its row. Fallback: when \<open>p1\<close>, a candidate for txid \<open>i\<close>, is requested
  with an expiry time that has passed when \<open>GetRequestable\<close> is called for another peer
  \<open>p2\<close>, and \<open>p2\<close> has a candidate for \<open>i\<close> whose time has come and whose priority is
  above that of every other such candidate, then \<open>i\<close> is returned for \<open>p2\<close> and the pair
  of \<open>p1\<close> and \<open>i\<close> is reported as expired.
\<close>

theorem GetRequestable_expired:
  "(reachable prio TXIDS s \<longrightarrow>
      set (expired (GetRequestable TXIDS peer s)) =
        {(p, TXIDS t) | p t. t < MAX_TXIDS \<and> p < MAX_PEERS
            \<and> m_state (m_announcements s t p) = REQUESTED \<and> m_time (m_announcements s t p) \<le> m_now s}
      \<and> (\<forall>t < MAX_TXIDS. m_announcements (state_after (GetRequestable TXIDS peer s)) t =
             Cleanup_row (complete_expired (m_now s) (m_announcements s t))))
   \<and> (p1 < MAX_PEERS \<and> p2 < MAX_PEERS \<and> i < MAX_TXIDS \<and> p2 \<noteq> p1
       \<and> m_state (m_announcements s0 i p1) = CANDIDATE
       \<and> exptime \<le> m_now s0 + offset
       \<and> ready (m_now s0 + offset) (m_announcements s0 i p2)
       \<and> (\<forall>p < MAX_PEERS. p \<noteq> p2 \<and> p \<noteq> p1 \<and> ready (m_now s0 + offset) (m_announcements s0 i p) \<longrightarrow>
              m_priority (m_announcements s0 i p) < m_priority (m_announcements s0 i p2)) \<longrightarrow>
         i \<in> set (selected (GetRequestable TXIDS p2 (AdvanceTime offset (RequestedTx p1 i exptime s0))))
       \<and> (p1, TXIDS i) \<in> set (expired (GetRequestable TXIDS p2 (AdvanceTime offset (RequestedTx p1 i exptime s0)))))"
proof (intro conjI impI)
  assume r: "reachable prio TXIDS s"
  have single: "\<And>t. single_inflight_row (m_announcements s t)"
    by (rule reachable_single_inflight[OF r])
  show "set (expired (GetRequestable TXIDS peer s)) =
        {(p, TXIDS t) | p t. t < MAX_TXIDS \<and> p < MAX_PEERS
            \<and> m_state (m_announcements s t p) = REQUESTED \<and> m_time (m_announcements s t p) \<le> m_now s}"
    unfolding expired_set by (simp add: expire_row_single_fst[OF single])
  show "\<forall>t < MAX_TXIDS. m_announcements (state_after (GetRequestable TXIDS peer s)) t =
             Cleanup_row (complete_expired (m_now s) (m_announcements s t))"
    by (simp add: GetRequestable_rows expire_cleanup_def expire_row_single_snd[OF single])
next
  assume h: "p1 < MAX_PEERS \<and> p2 < MAX_PEERS \<and> i < MAX_TXIDS \<and> p2 \<noteq> p1
       \<and> m_state (m_announcements s0 i p1) = CANDIDATE
       \<and> exptime \<le> m_now s0 + offset
       \<and> ready (m_now s0 + offset) (m_announcements s0 i p2)
       \<and> (\<forall>p < MAX_PEERS. p \<noteq> p2 \<and> p \<noteq> p1 \<and> ready (m_now s0 + offset) (m_announcements s0 i p) \<longrightarrow>
              m_priority (m_announcements s0 i p) < m_priority (m_announcements s0 i p2))"
  then have fb: "i \<in> set (selected (GetRequestable TXIDS p2 (AdvanceTime offset (RequestedTx p1 i exptime s0))))
       \<and> (p1, TXIDS i) \<in> set (expired (GetRequestable TXIDS p2 (AdvanceTime offset (RequestedTx p1 i exptime s0))))"
    by (intro fallback_after_expiry) blast+
  from fb show "i \<in> set (selected (GetRequestable TXIDS p2 (AdvanceTime offset (RequestedTx p1 i exptime s0))))"
    by blast
  from fb show "(p1, TXIDS i) \<in> set (expired (GetRequestable TXIDS p2 (AdvanceTime offset (RequestedTx p1 i exptime s0))))"
    by blast
qed

text \<open>
  Scenario S4: peers 0 and 1 are candidates for txid 0, peer 1 is requested with an expiry
  500 microseconds ahead, and \<open>GetRequestable\<close> is called for peer 0 after 600.
\<close>

theorem GetRequestable_expired_witness:
  "reachable ex_prio ex_TXIDS ex_request_expired
   \<and> m_state (m_announcements ex_two_candidates 0 1) = CANDIDATE
   \<and> 244467166 \<le> m_now ex_two_candidates + 600
   \<and> ready (m_now ex_two_candidates + 600) (m_announcements ex_two_candidates 0 0)
   \<and> 0 \<in> set (selected (GetRequestable ex_TXIDS 0 ex_request_expired))
   \<and> set (expired (GetRequestable ex_TXIDS 0 ex_request_expired)) = {(1, ex_TXIDS 0)}
   \<and> m_state (m_announcements (state_after (GetRequestable ex_TXIDS 0 ex_request_expired)) 0 1) = COMPLETED"
proof -
  have b: "(1::nat) < MAX_PEERS \<and> (0::nat) < MAX_PEERS \<and> (0::nat) < MAX_TXIDS \<and> (0::nat) \<noteq> 1"
    by (simp add: MAX_PEERS_def MAX_TXIDS_def)
  have c: "m_state (m_announcements ex_two_candidates 0 1) = CANDIDATE"
    by (simp add: ex_two_candidates_cells)
  have d: "244467166 \<le> m_now ex_two_candidates + 600"
    by (simp add: ex_two_candidates_now)
  have e: "ready (m_now ex_two_candidates + 600) (m_announcements ex_two_candidates 0 0)"
    by (simp add: ready_def ex_two_candidates_cells ex_two_candidates_now)
  have f: "\<forall>p < MAX_PEERS. p \<noteq> 0 \<and> p \<noteq> 1
             \<and> ready (m_now ex_two_candidates + 600) (m_announcements ex_two_candidates 0 p) \<longrightarrow>
              m_priority (m_announcements ex_two_candidates 0 p) < m_priority (m_announcements ex_two_candidates 0 0)"
    by (simp add: ready_def ex_two_candidates_cells)
  note th = GetRequestable_expired[of ex_prio ex_TXIDS ex_request_expired 0 1 0 0 ex_two_candidates
      244467166 600]
  from th b c d e f
  have g: "0 \<in> set (selected (GetRequestable ex_TXIDS 0 ex_request_expired))"
    unfolding ex_request_expired_def by blast
  from th ex_request_expired_reachable
  have h: "set (expired (GetRequestable ex_TXIDS 0 ex_request_expired)) =
        {(p, ex_TXIDS t) | p t. t < MAX_TXIDS \<and> p < MAX_PEERS
            \<and> m_state (m_announcements ex_request_expired t p) = REQUESTED
            \<and> m_time (m_announcements ex_request_expired t p) \<le> m_now ex_request_expired}"
    by blast
  have i: "set (expired (GetRequestable ex_TXIDS 0 ex_request_expired)) = {(1, ex_TXIDS 0)}" by code_simp
  have j: "m_state (m_announcements (state_after (GetRequestable ex_TXIDS 0 ex_request_expired)) 0 1) = COMPLETED"
    by code_simp
  from ex_request_expired_reachable c d e g i j show ?thesis by blast
qed

text \<open>
  The fallback of claim C4 as stated fails: peers 0, 1 and 2 are candidates for txid 0,
  peer 1 is requested with an expiry time in the past. The request is reported as expired, but
  the txid is returned for peer 2, whose priority is the highest, and not for peer 0.
\<close>

theorem fallback_not_for_every_candidate_counterexample:
  "m_state (m_announcements ex_three_candidates 0 1) = CANDIDATE
   \<and> 0 \<le> m_now (RequestedTx 1 0 0 ex_three_candidates)
   \<and> ready (m_now (RequestedTx 1 0 0 ex_three_candidates)) (m_announcements ex_three_candidates 0 0)
   \<and> 0 \<notin> set (selected (GetRequestable ex_TXIDS 0 (RequestedTx 1 0 0 ex_three_candidates)))
   \<and> expired (GetRequestable ex_TXIDS 0 (RequestedTx 1 0 0 ex_three_candidates)) = [(1, ex_TXIDS 0)]
   \<and> selected (GetRequestable ex_TXIDS 2 (RequestedTx 1 0 0 ex_three_candidates)) = [0]"
  by code_simp

end
